theory Spec2Isabelle
  imports Complex_Main
begin

section \<open>Errors\<close>

text \<open>
  The exceptions that can leave \<^verbatim>\<open>train_mitoses.py\<close>:
  \<^item> \<open>InvalidArgumentError\<close>: TensorFlow's error for a failed \<^verbatim>\<open>tf.Assert\<close> (it carries
    the asserted data) and for a slice index that is out of bounds;
  \<^item> \<open>ModelNameUnknown\<close>: the \<^verbatim>\<open>raise Exception("model name unknown: ...")\<close> of \<^verbatim>\<open>train\<close>;
  \<^item> \<open>NotFoundError\<close>: \<^verbatim>\<open>saver.restore\<close> without a checkpoint, or with a checkpoint that
    lacks a variable of the graph (it carries the name);
  \<^item> \<open>FileNotFoundError\<close>: \<^verbatim>\<open>open(..., "rb")\<close> on a missing file;
  \<^item> \<open>ValueError\<close> and \<open>OverflowError\<close>: the exceptions of Keras and TensorFlow for an
    argument they reject while the graph is built.
\<close>

datatype error =
    InvalidArgumentError string
  | ModelNameUnknown string
  | NotFoundError string
  | FileNotFoundError string
  | ValueError string
  | OverflowError string

section \<open>Label codec\<close>

text \<open>
  \<^verbatim>\<open>tf.string_split([filename], "/")\<close> cuts the string at every delimiter and, with its
  default \<^verbatim>\<open>skip_empty=True\<close>, drops the empty tokens. \<open>split_on\<close> is the plain cut,
  \<open>string_split\<close> the values of the resulting sparse tensor.
\<close>

fun split_on :: "char \<Rightarrow> string \<Rightarrow> string list" where
  "split_on d [] = [[]]"
| "split_on d (c # cs) =
     (if c = d then [] # split_on d cs
      else (case split_on d cs of
              [] \<Rightarrow> [[c]]
            | t # ts \<Rightarrow> (c # t) # ts))"

definition string_split :: "string \<Rightarrow> char \<Rightarrow> string list" where
  "string_split source delimiter = filter (\<lambda>t. t \<noteq> []) (split_on delimiter source)"

text \<open>
  \<^verbatim>\<open>get_label(filename)\<close>: \<^verbatim>\<open>splits.values[-2]\<close> is out of bounds when there are fewer
  than two tokens; \<^verbatim>\<open>tf.Assert(is_valid, [label_str])\<close> guards the conversion of
  \<^verbatim>\<open>tf.equal(label_str, 'mitosis')\<close> to a float.
\<close>

definition get_label :: "string \<Rightarrow> error + real" where
  "get_label filename =
     (let splits = string_split filename CHR ''/'' in
      if length splits < 2 then Inl (InvalidArgumentError ''slice index -2 out of bounds'')
      else
        let label_str = splits ! (length splits - 2);
            is_valid = (label_str = ''normal'' \<or> label_str = ''mitosis'')
        in if \<not> is_valid then Inl (InvalidArgumentError label_str)
           else Inr (if label_str = ''mitosis'' then 1 else 0))"

section \<open>Image normalisation\<close>

text \<open>
  \<^verbatim>\<open>get_image\<close> decodes with \<^verbatim>\<open>channels=3\<close>, so the last axis of an image tensor of
  shape (h,w,c) has three entries: a pixel is the triple of its channels, an image a list
  of rows of pixels. Tensor arithmetic is element-wise; float32 values are taken as reals.
\<close>

type_synonym pixel = "real \<times> real \<times> real"
type_synonym image = "pixel list list"

definition map_image :: "(pixel \<Rightarrow> pixel) \<Rightarrow> image \<Rightarrow> image" where
  "map_image f img = map (map f) img"

text \<open>\<^verbatim>\<open>image * k\<close> and \<^verbatim>\<open>image - k\<close> with a scalar \<open>k\<close>.\<close>

definition image_mul :: "image \<Rightarrow> real \<Rightarrow> image" where
  "image_mul img k = map_image (\<lambda>(c0, c1, c2). (c0 * k, c1 * k, c2 * k)) img"

definition image_sub :: "image \<Rightarrow> real \<Rightarrow> image" where
  "image_sub img k = map_image (\<lambda>(c0, c1, c2). (c0 - k, c1 - k, c2 - k)) img"

text \<open>\<^verbatim>\<open>image[..., ::-1]\<close>: the last axis reversed.\<close>

definition reverse_channels :: "image \<Rightarrow> image" where
  "reverse_channels img = map_image (\<lambda>(c0, c1, c2). (c2, c1, c0)) img"

text \<open>\<^verbatim>\<open>image - [m0, m1, m2]\<close>: the list is broadcast along the last axis.\<close>

definition image_sub_channels :: "image \<Rightarrow> pixel \<Rightarrow> image" where
  "image_sub_channels img m =
     (case m of (m0, m1, m2) \<Rightarrow> map_image (\<lambda>(c0, c1, c2). (c0 - m0, c1 - m1, c2 - m2)) img)"

definition normalize :: "image \<Rightarrow> string \<Rightarrow> image" where
  "normalize img model_name =
     (if model_name \<in> {''vgg'', ''resnet''} then
        let img = image_mul img 255.0;
            img = reverse_channels img;
            img = image_sub_channels img (103.939, 116.779, 123.68)
        in img
      else
        let img = image_sub img 0.5;
            img = image_mul img 2
        in img)"

text \<open>Every channel of every pixel lies in \<open>[lo, hi]\<close>.\<close>

definition image_within :: "real \<Rightarrow> real \<Rightarrow> image \<Rightarrow> bool" where
  "image_within lo hi img =
     list_all (list_all (\<lambda>(c0, c1, c2).
        lo \<le> c0 \<and> c0 \<le> hi \<and> lo \<le> c1 \<and> c1 \<le> hi \<and> lo \<le> c2 \<and> c2 \<le> hi)) img"

section \<open>Resettable metrics\<close>

text \<open>
  A \<^verbatim>\<open>tf.metrics\<close> function creates local variables (initialised to zero) and returns
  the tensor of the metric's value and an update op, which folds the values fed to it
  into the variables and returns the updated value. \<open>tf_metric\<close> is such a function for
  variables of type \<open>'v\<close> and fed values of type \<open>'a\<close>.
\<close>

record ('v, 'a) tf_metric =
  m_init :: 'v
  m_value :: "'v \<Rightarrow> real"
  m_update :: "'a \<Rightarrow> 'v \<Rightarrow> 'v"

text \<open>
  \<^verbatim>\<open>create_reset_metric(metric, scope, **metric_kwargs)\<close> returns the metric op, the update
  op, and a reset op that re-initialises the local variables created inside the scope.
\<close>

record ('v, 'a) reset_metric =
  metric_op :: "'v \<Rightarrow> real"
  update_op :: "'a \<Rightarrow> 'v \<Rightarrow> real \<times> 'v"
  reset_op :: "'v \<Rightarrow> 'v"

definition create_reset_metric :: "('v, 'a) tf_metric \<Rightarrow> ('v, 'a) reset_metric" where
  "create_reset_metric metric =
     \<lparr>metric_op = m_value metric,
      update_op = (\<lambda>a local_vars.
         let local_vars = m_update metric a local_vars
         in (m_value metric local_vars, local_vars)),
      reset_op = (\<lambda>local_vars. m_init metric)\<rparr>"

text \<open>
  \<^verbatim>\<open>tf.metrics.mean(values)\<close>: the variables \<open>total\<close> and \<open>count\<close>; the update adds the sum
  and the number of the values; the value is \<open>total / count\<close>, and 0 when \<open>count\<close> is 0.
\<close>

record mean_vars =
  total :: real
  count :: real

definition safe_div :: "real \<Rightarrow> real \<Rightarrow> real" where
  "safe_div numerator denominator =
     (if denominator > 0 then numerator / denominator else 0)"

definition metrics_mean :: "(mean_vars, real list) tf_metric" where
  "metrics_mean =
     \<lparr>m_init = \<lparr>total = 0, count = 0\<rparr>,
      m_value = (\<lambda>v. safe_div (total v) (count v)),
      m_update = (\<lambda>values v.
         \<lparr>total = total v + sum_list values, count = count v + real (length values)\<rparr>)\<rparr>"

text \<open>
  \<^verbatim>\<open>tf.metrics.accuracy(labels, predictions)\<close> is the mean of the indicator of
  \<open>label = prediction\<close>. (The metrics squeeze the last axis of \<^verbatim>\<open>preds\<close>, so labels and
  predictions are two lists of the length of the batch.)
\<close>

definition is_correct :: "real list \<times> real list \<Rightarrow> real list" where
  "is_correct lp = map (\<lambda>(l, p). if l = p then 1 else 0) (zip (fst lp) (snd lp))"

definition metrics_accuracy :: "(mean_vars, real list \<times> real list) tf_metric" where
  "metrics_accuracy =
     \<lparr>m_init = m_init metrics_mean,
      m_value = m_value metrics_mean,
      m_update = (\<lambda>lp v. m_update metrics_mean (is_correct lp) v)\<rparr>"

text \<open>
  \<^verbatim>\<open>tf.metrics.precision\<close> and \<^verbatim>\<open>tf.metrics.recall\<close> cast labels and predictions to
  booleans (non-zero is true) and count true positives with false positives, or with
  false negatives; the value is \<open>tp / (tp + fp)\<close>, or \<open>tp / (tp + fn)\<close>, and 0 when the
  denominator is 0.
\<close>

definition count_where :: "(bool \<Rightarrow> bool \<Rightarrow> bool) \<Rightarrow> real list \<times> real list \<Rightarrow> real" where
  "count_where f lp =
     real (length (filter (\<lambda>(l, p). f (l \<noteq> 0) (p \<noteq> 0)) (zip (fst lp) (snd lp))))"

record precision_vars =
  true_positives :: real
  false_positives :: real

definition metrics_precision :: "(precision_vars, real list \<times> real list) tf_metric" where
  "metrics_precision =
     \<lparr>m_init = \<lparr>true_positives = 0, false_positives = 0\<rparr>,
      m_value = (\<lambda>v. safe_div (true_positives v) (true_positives v + false_positives v)),
      m_update = (\<lambda>lp v.
         \<lparr>true_positives = true_positives v + count_where (\<lambda>l p. l \<and> p) lp,
          false_positives = false_positives v + count_where (\<lambda>l p. \<not> l \<and> p) lp\<rparr>)\<rparr>"

record recall_vars =
  recall_true_positives :: real
  false_negatives :: real

definition metrics_recall :: "(recall_vars, real list \<times> real list) tf_metric" where
  "metrics_recall =
     \<lparr>m_init = \<lparr>recall_true_positives = 0, false_negatives = 0\<rparr>,
      m_value = (\<lambda>v. safe_div (recall_true_positives v)
                        (recall_true_positives v + false_negatives v)),
      m_update = (\<lambda>lp v.
         \<lparr>recall_true_positives = recall_true_positives v + count_where (\<lambda>l p. l \<and> p) lp,
          false_negatives = false_negatives v + count_where (\<lambda>l p. l \<and> \<not> p) lp\<rparr>)\<rparr>"

text \<open>
  A sequence of \<^verbatim>\<open>sess.run(update_op, feed_dict={x: batch})\<close>, as in
  \<^verbatim>\<open>test_resettable_metric\<close>: the outputs of the update op in order, and the variables
  at the end.
\<close>

fun run_updates :: "('v, 'a) reset_metric \<Rightarrow> 'a list \<Rightarrow> 'v \<Rightarrow> real list \<times> 'v" where
  "run_updates M [] v = ([], v)"
| "run_updates M (a # as) v =
     (case update_op M a v of
        (out, v') \<Rightarrow> (case run_updates M as v' of (outs, v'') \<Rightarrow> (out # outs, v'')))"

section \<open>Configuration\<close>

text \<open>The arguments of \<^verbatim>\<open>train\<close>, as parsed by \<^verbatim>\<open>argparse\<close> (\<^verbatim>\<open>type=int\<close> admits negatives).\<close>

record config =
  train_path :: string
  val_path :: string
  exp_path :: string
  model_name :: string
  patch_size :: int
  batch_size :: int
  clf_epochs :: int
  finetune_epochs :: int
  clf_lr :: real
  finetune_lr :: real
  finetune_momentum :: real
  finetune_layers :: int
  l2 :: real
  augmentation :: bool
  log_interval :: int
  threads :: int
  checkpoint :: bool
  resume :: bool

section \<open>Model assembly\<close>

text \<open>
  A Keras layer, as far as \<^verbatim>\<open>train\<close> looks at it: its \<^verbatim>\<open>trainable\<close> flag, the variables
  it created as trainable and as non-trainable weights, and the variables assigned by the
  update ops it registered (the moving statistics of batch normalisation). The property
  \<^verbatim>\<open>layer.trainable_weights\<close> is empty for a layer whose flag is off; \<^verbatim>\<open>layer.weights\<close>
  are all its variables whatever the flag.
\<close>

type_synonym var = string

record layer =
  layer_name :: string
  trainable :: bool
  own_trainable_weights :: "var list"
  own_non_trainable_weights :: "var list"
  own_updates :: "var list"

definition trainable_weights :: "layer \<Rightarrow> var list" where
  "trainable_weights l = (if trainable l then own_trainable_weights l else [])"

definition weights :: "layer \<Rightarrow> var list" where
  "weights l = own_trainable_weights l @ own_non_trainable_weights l"

text \<open>
  Layers are objects: \<^verbatim>\<open>model_base.layers\<close> and \<^verbatim>\<open>model.layers\<close> hold references to the
  same layers, and \<^verbatim>\<open>layer.trainable = ...\<close> writes through the reference. The heap maps
  a reference to the layer's current state.
\<close>

type_synonym layer_ref = nat
type_synonym heap = "layer_ref \<Rightarrow> layer"

text \<open>
  \<^verbatim>\<open>model.trainable_weights\<close> and \<^verbatim>\<open>model.updates\<close> of a model with the given layers,
  read at the moment of the call. (Keras 2.0, which the script is written against,
  collects the update ops of every layer, whatever its flag.)
\<close>

definition model_trainable_weights :: "heap \<Rightarrow> layer_ref list \<Rightarrow> var list" where
  "model_trainable_weights h layers = concat (map (\<lambda>r. trainable_weights (h r)) layers)"

definition model_updates :: "heap \<Rightarrow> layer_ref list \<Rightarrow> var list" where
  "model_updates h layers = concat (map (\<lambda>r. own_updates (h r)) layers)"

text \<open>\<^verbatim>\<open>for layer in layers: layer.trainable = b\<close>\<close>

fun set_trainable :: "bool \<Rightarrow> layer_ref list \<Rightarrow> heap \<Rightarrow> heap" where
  "set_trainable b [] h = h"
| "set_trainable b (r # rs) h = set_trainable b rs (h(r := (h r)\<lparr>trainable := b\<rparr>))"

text \<open>\<^verbatim>\<open>xs[-n:]\<close> for \<open>n > 0\<close>: the last \<open>n\<close> elements, all of them when there are fewer.\<close>

definition last_n :: "nat \<Rightarrow> 'a list \<Rightarrow> 'a list" where
  "last_n n xs = drop (length xs - n) xs"

text \<open>
  The layers that \<^verbatim>\<open>train\<close> creates itself: \<^verbatim>\<open>Input\<close>, \<^verbatim>\<open>Flatten()\<close> and
  \<^verbatim>\<open>Dense(1, ...)\<close>, the last with a kernel and a bias. New layers are trainable, except
  the input layer, which Keras creates with the flag off.
\<close>

definition Input_layer :: layer where
  "Input_layer = \<lparr>layer_name = ''input_1'', trainable = False, own_trainable_weights = [],
     own_non_trainable_weights = [], own_updates = []\<rparr>"

definition Flatten_layer :: layer where
  "Flatten_layer = \<lparr>layer_name = ''flatten_1'', trainable = True, own_trainable_weights = [],
     own_non_trainable_weights = [], own_updates = []\<rparr>"

definition Dense_layer :: layer where
  "Dense_layer = \<lparr>layer_name = ''dense_1'', trainable = True,
     own_trainable_weights = [''dense_1/kernel'', ''dense_1/bias''],
     own_non_trainable_weights = [], own_updates = []\<rparr>"

text \<open>
  What Keras and TensorFlow do with the arguments of the script while the graph is built
  is not part of the script and is a parameter:
  \<^item> \<open>VGG16\<close> and \<open>ResNet50\<close>: the layers of \<^verbatim>\<open>VGG16(include_top=False, input_shape=(p, p, 3),
    ...)\<close> and of \<^verbatim>\<open>ResNet50(...)\<close> for the patch size \<open>p\<close>, or the exception they raise (an
    input below their minimum size is rejected);
  \<^item> \<open>dense_head\<close>: the exception, if any, of \<^verbatim>\<open>Dense(1, ...)(Flatten()(x))\<close> for the model
    name and the patch size (the flattened size must be defined);
  \<^item> \<open>variable_shape\<close>: the shape of each variable of the model built for the model name
    and the patch size;
  \<^item> \<open>int_tensor\<close>: the exception, if any, of converting a Python integer to a tensor of
    the given type;
  \<^item> \<open>traced_preprocess\<close>: the exception, if any, of tracing
    \<^verbatim>\<open>preprocess(x, patch_size, augmentation, model_name)\<close> as the function of
    \<^verbatim>\<open>Dataset.map\<close> (it builds \<^verbatim>\<open>resize_images\<close> with the patch size).
\<close>

datatype dtype = Int32 | Int64

type_synonym shape = "int list"

record libraries =
  VGG16 :: "int \<Rightarrow> error + layer list"
  ResNet50 :: "int \<Rightarrow> error + layer list"
  dense_head :: "string \<Rightarrow> int \<Rightarrow> error option"
  variable_shape :: "string \<Rightarrow> int \<Rightarrow> var \<Rightarrow> shape"
  int_tensor :: "int \<Rightarrow> dtype \<Rightarrow> error option"
  traced_preprocess :: "int \<Rightarrow> bool \<Rightarrow> string \<Rightarrow> error option"

text \<open>\<open>alloc ls a h\<close> stores the layers \<open>ls\<close> at the references \<open>a, a + 1, ...\<close>\<close>

fun alloc :: "layer list \<Rightarrow> layer_ref \<Rightarrow> heap \<Rightarrow> heap" where
  "alloc [] a h = h"
| "alloc (l # ls) a h = alloc ls (Suc a) (h(a := l))"

record model =
  layer_heap :: heap
  model_base_layers :: "layer_ref list"
  model_layers :: "layer_ref list"

text \<open>
  The model of a base followed by \<^verbatim>\<open>Flatten\<close> and \<^verbatim>\<open>Dense\<close>: its layers are the base's
  layers and the two new ones.
\<close>

definition model_on_base :: "layer list \<Rightarrow> model" where
  "model_on_base base =
     (let n = length base in
      \<lparr>layer_heap = alloc (base @ [Flatten_layer, Dense_layer]) 0 (\<lambda>_. Input_layer),
       model_base_layers = [0..<n],
       model_layers = [0..<n] @ [n, n + 1]\<rparr>)"

text \<open>
  The \<^verbatim>\<open>if model_name == ...\<close> chain of the "model" section, with
  \<^verbatim>\<open>input_shape = (patch_size, patch_size, 3)\<close>. For "logreg" the base is an empty
  \<^verbatim>\<open>Sequential()\<close> and the model is \<^verbatim>\<open>Input\<close>, \<^verbatim>\<open>Flatten\<close>, \<^verbatim>\<open>Dense\<close>; for "vgg" and "resnet"
  the pretrained network is built first, then the head on its output.
\<close>

definition build_model :: "libraries \<Rightarrow> string \<Rightarrow> int \<Rightarrow> error + model" where
  "build_model L name patch_sz =
     (if name = ''logreg'' then
        (case dense_head L name patch_sz of
           Some e \<Rightarrow> Inl e
         | None \<Rightarrow>
             Inr \<lparr>layer_heap = alloc [Input_layer, Flatten_layer, Dense_layer] 0 (\<lambda>_. Input_layer),
                  model_base_layers = [],
                  model_layers = [0, 1, 2]\<rparr>)
      else if name = ''vgg'' then
        (case VGG16 L patch_sz of
           Inl e \<Rightarrow> Inl e
         | Inr base \<Rightarrow>
             (case dense_head L name patch_sz of
                Some e \<Rightarrow> Inl e
              | None \<Rightarrow> Inr (model_on_base base)))
      else if name = ''resnet'' then
        (case ResNet50 L patch_sz of
           Inl e \<Rightarrow> Inl e
         | Inr base \<Rightarrow>
             (case dense_head L name patch_sz of
                Some e \<Rightarrow> Inl e
              | None \<Rightarrow> Inr (model_on_base base)))
      else Inl (ModelNameUnknown name))"

text \<open>
  The variables of the new dense head, and the shape of every model that \<open>build_model\<close>
  returns: the base layers followed by new layers that own exactly the head variables
  and no update op.
\<close>

definition head_vars :: "var list" where
  "head_vars = [''dense_1/kernel'', ''dense_1/bias'']"

definition assembled :: "model \<Rightarrow> bool" where
  "assembled m =
     (\<exists>hd_refs. model_layers m = model_base_layers m @ hd_refs
        \<and> distinct (model_base_layers m)
        \<and> set hd_refs \<inter> set (model_base_layers m) = {}
        \<and> concat (map (\<lambda>r. trainable_weights (layer_heap m r)) hd_refs) = head_vars
        \<and> concat (map (\<lambda>r. own_updates (layer_heap m r)) hd_refs) = [])"

section \<open>Graph construction\<close>

text \<open>
  The "optim" section. All base layers are frozen, then the classifier optimizer takes
  \<^verbatim>\<open>model.trainable_weights\<close> and \<^verbatim>\<open>model.updates\<close>; then, if \<^verbatim>\<open>finetune_layers > 0\<close>, the
  last \<^verbatim>\<open>finetune_layers\<close> base layers are unfrozen, and the fine-tune optimizer takes
  \<^verbatim>\<open>model.trainable_weights\<close> and \<^verbatim>\<open>model.updates\<close> again. A train op is the group of
  \<^verbatim>\<open>apply_gradients\<close> on its variable list and of its update ops. \<open>build_optim\<close> is this
  section together with the saver made after it.
\<close>

text \<open>
  The base layers that the "optim" section unfreezes (\<^verbatim>\<open>model_base.layers[-finetune_layers:]\<close>
  under the guard \<^verbatim>\<open>finetune_layers > 0\<close>), and the base layers before them, which
  stay frozen.
\<close>

definition unfrozen_layers :: "int \<Rightarrow> layer_ref list \<Rightarrow> layer_ref list" where
  "unfrozen_layers n base = (if n > 0 then last_n (nat n) base else [])"

definition frozen_layers :: "int \<Rightarrow> layer_ref list \<Rightarrow> layer_ref list" where
  "frozen_layers n base = take (length base - length (unfrozen_layers n base)) base"

text \<open>
  \<^verbatim>\<open>saver = tf.train.Saver()\<close> covers the global variables that exist when it is made,
  each with its shape: the weights of the model's layers, the two Adam slots of every
  variable of the classifier list with Adam's two power accumulators, and the momentum
  slot of every variable of the fine-tune list (names without their scope prefixes).
\<close>

definition saver_variables ::
  "(var \<Rightarrow> shape) \<Rightarrow> var list \<Rightarrow> var list \<Rightarrow> var list \<Rightarrow> (var \<times> shape) list" where
  "saver_variables sh model_vars clf_vars finetune_vars =
     map (\<lambda>v. (v, sh v)) model_vars
     @ concat (map (\<lambda>v. [(v @ ''/Adam'', sh v), (v @ ''/Adam_1'', sh v)]) clf_vars)
     @ [(''beta1_power'', []), (''beta2_power'', [])]
     @ map (\<lambda>v. (v @ ''/Momentum'', sh v)) finetune_vars"

record graph =
  final_model :: model
  clf_var_list :: "var list"
  clf_model_update_ops :: "var list"
  finetune_var_list :: "var list"
  finetune_model_update_ops :: "var list"
  saver_vars :: "(var \<times> shape) list"

definition build_optim :: "model \<Rightarrow> int \<Rightarrow> (var \<Rightarrow> shape) \<Rightarrow> graph" where
  "build_optim m n_finetune_layers sh =
     (let h = set_trainable False (model_base_layers m) (layer_heap m);
          clf_vars = model_trainable_weights h (model_layers m);
          clf_updates = model_updates h (model_layers m);
          h = (if n_finetune_layers > 0
               then set_trainable True (last_n (nat n_finetune_layers) (model_base_layers m)) h
               else h);
          finetune_vars = model_trainable_weights h (model_layers m);
          finetune_updates = model_updates h (model_layers m)
      in \<lparr>final_model = m\<lparr>layer_heap := h\<rparr>,
          clf_var_list = clf_vars, clf_model_update_ops = clf_updates,
          finetune_var_list = finetune_vars, finetune_model_update_ops = finetune_updates,
          saver_vars = saver_variables sh
            (concat (map (\<lambda>r. weights (h r)) (model_layers m))) clf_vars finetune_vars\<rparr>)"

text \<open>
  What \<^verbatim>\<open>train\<close> and the main block have created when they stop, in the order of the
  statements: the experiment folder, the args record and the copy of the script (main
  block); the two datasets, the iterator, the batch tensors derived from
  \<^verbatim>\<open>iterator.get_next()\<close> and the two initialiser ops ("data" section); then model, loss,
  optimizers, metrics, summaries, writers, saver and session.
\<close>

datatype resource =
    ExperimentDir | ArgsFile | ScriptCopy
  | TrainDataset | ValDataset | DataIterator | BatchTensors | IteratorInitOps
  | ModelLayers | LossOp | ClfOptimizer | FinetuneOptimizer
  | MetricOps | SummaryOps | SummaryWriters | SaverOp | Session

text \<open>
  One dataset of the "data" section: \<^verbatim>\<open>.map(lambda x: preprocess(x, patch_size, ...,
  model_name), num_threads=threads, output_buffer_size=100*batch_size)\<close> traces the
  function and converts \<^verbatim>\<open>threads\<close> to an int32 and \<^verbatim>\<open>100*batch_size\<close> to an int64 tensor;
  \<^verbatim>\<open>.batch(batch_size)\<close> converts \<^verbatim>\<open>batch_size\<close> to an int64 tensor. The first exception
  ends the construction.
\<close>

fun first_error :: "error option list \<Rightarrow> error option" where
  "first_error [] = None"
| "first_error (None # xs) = first_error xs"
| "first_error (Some e # xs) = Some e"

definition dataset_errors :: "libraries \<Rightarrow> config \<Rightarrow> bool \<Rightarrow> error option" where
  "dataset_errors L cfg augmenting =
     first_error
       [traced_preprocess L (patch_size cfg) augmenting (model_name cfg),
        int_tensor L (threads cfg) Int32,
        int_tensor L (100 * batch_size cfg) Int64,
        int_tensor L (batch_size cfg) Int64]"

text \<open>
  The "data" section: the training dataset (with the augmentation flag), the validation
  dataset (without augmentation), then the iterator, the tensors and the initialisers.
\<close>

definition data_section :: "libraries \<Rightarrow> config \<Rightarrow> resource list \<times> error option" where
  "data_section L cfg =
     (case dataset_errors L cfg (augmentation cfg) of
        Some e \<Rightarrow> ([], Some e)
      | None \<Rightarrow>
          (case dataset_errors L cfg False of
             Some e \<Rightarrow> ([TrainDataset], Some e)
           | None \<Rightarrow>
               ([TrainDataset, ValDataset, DataIterator, BatchTensors, IteratorInitOps], None)))"

text \<open>The graph of \<^verbatim>\<open>train\<close>, from the "data" section to the saver.\<close>

definition build_graph :: "libraries \<Rightarrow> config \<Rightarrow> resource list \<times> (error + graph)" where
  "build_graph L cfg =
     (case data_section L cfg of
        (made, Some e) \<Rightarrow> (made, Inl e)
      | (made, None) \<Rightarrow>
          (case build_model L (model_name cfg) (patch_size cfg) of
             Inl e \<Rightarrow> (made, Inl e)
           | Inr m \<Rightarrow>
               (made @ [ModelLayers, LossOp, ClfOptimizer, FinetuneOptimizer,
                  MetricOps, SummaryOps, SummaryWriters, SaverOp],
                Inr (build_optim m (finetune_layers cfg)
                       (variable_shape L (model_name cfg) (patch_size cfg))))))"

section \<open>Train ops\<close>

text \<open>
  The numerics of TensorFlow are parameters: \<open>apply_gradient\<close> is the value an optimizer
  (Adam in the classifier phase, Nesterov momentum in the fine-tune phase) writes to a
  variable of its list, \<open>update_slots\<close> its new slot variables, \<open>run_update_op\<close> the value
  an update op assigns, \<open>loss_tensor\<close> and \<open>preds_tensor\<close> the values of \<^verbatim>\<open>loss\<close> and
  \<^verbatim>\<open>preds\<close> for the given variables, learning phase and batch, \<open>initial_variables\<close> and
  \<open>initial_slots\<close> the pretrained and freshly initialised values. Values of variables
  have type \<open>'w\<close>, optimizer slots \<open>'o\<close>, batches \<open>'b\<close>.
\<close>

datatype phase = Classifier | FineTune

record ('w, 'o, 'b) numerics =
  initial_variables :: "var \<Rightarrow> 'w"
  initial_slots :: 'o
  apply_gradient :: "phase \<Rightarrow> (var \<Rightarrow> 'w) \<Rightarrow> 'o \<Rightarrow> 'b \<Rightarrow> var \<Rightarrow> 'w"
  update_slots :: "phase \<Rightarrow> var list \<Rightarrow> (var \<Rightarrow> 'w) \<Rightarrow> 'o \<Rightarrow> 'b \<Rightarrow> 'o"
  run_update_op :: "(var \<Rightarrow> 'w) \<Rightarrow> 'b \<Rightarrow> var \<Rightarrow> 'w"
  loss_tensor :: "(var \<Rightarrow> 'w) \<Rightarrow> bool \<Rightarrow> 'b \<Rightarrow> real"
  preds_tensor :: "(var \<Rightarrow> 'w) \<Rightarrow> bool \<Rightarrow> 'b \<Rightarrow> real list"

definition var_list :: "graph \<Rightarrow> phase \<Rightarrow> var list" where
  "var_list G ph = (case ph of Classifier \<Rightarrow> clf_var_list G | FineTune \<Rightarrow> finetune_var_list G)"

definition model_update_ops :: "graph \<Rightarrow> phase \<Rightarrow> var list" where
  "model_update_ops G ph =
     (case ph of Classifier \<Rightarrow> clf_model_update_ops G | FineTune \<Rightarrow> finetune_model_update_ops G)"

text \<open>
  One run of \<^verbatim>\<open>clf_train_op\<close> or \<^verbatim>\<open>finetune_train_op\<close> on a batch, with the learning phase
  fed as 1: gradients and updates are computed from the variables before the step.
\<close>

definition run_train_op ::
  "('w, 'o, 'b) numerics \<Rightarrow> graph \<Rightarrow> phase \<Rightarrow> 'b \<Rightarrow> (var \<Rightarrow> 'w) \<times> 'o \<Rightarrow> (var \<Rightarrow> 'w) \<times> 'o" where
  "run_train_op N G ph b s =
     (case s of (vars, slots) \<Rightarrow>
        ((\<lambda>v. if v \<in> set (var_list G ph) then apply_gradient N ph vars slots b v
              else if v \<in> set (model_update_ops G ph) then run_update_op N vars b v
              else vars v),
         update_slots N ph (var_list G ph) vars slots b))"

section \<open>The metrics of the graph\<close>

text \<open>
  The "metrics" section: four resettable metrics over the loss, the labels and the
  predictions of the current batch. \<^verbatim>\<open>tf.metrics.mean(values=loss)\<close> is fed the scalar
  loss, one value per batch.
\<close>

definition mean_loss_metric :: "(mean_vars, real list) reset_metric" where
  "mean_loss_metric = create_reset_metric metrics_mean"

definition acc_metric :: "(mean_vars, real list \<times> real list) reset_metric" where
  "acc_metric = create_reset_metric metrics_accuracy"

definition ppv_metric :: "(precision_vars, real list \<times> real list) reset_metric" where
  "ppv_metric = create_reset_metric metrics_precision"

definition sens_metric :: "(recall_vars, real list \<times> real list) reset_metric" where
  "sens_metric = create_reset_metric metrics_recall"

text \<open>The local variables of the session are those of the four metrics.\<close>

record local_variables =
  mean_loss_vars :: mean_vars
  acc_vars :: mean_vars
  ppv_vars :: precision_vars
  sens_vars :: recall_vars

text \<open>\<^verbatim>\<open>tf.local_variables_initializer()\<close>\<close>

definition local_init :: local_variables where
  "local_init =
     \<lparr>mean_loss_vars = m_init metrics_mean, acc_vars = m_init metrics_accuracy,
      ppv_vars = m_init metrics_precision, sens_vars = m_init metrics_recall\<rparr>"

text \<open>
  \<^verbatim>\<open>metric_update_ops\<close> and \<^verbatim>\<open>metric_reset_ops\<close>: the groups of the four update ops and of
  the four reset ops.
\<close>

definition metric_update_ops ::
  "real \<Rightarrow> real list \<Rightarrow> real list \<Rightarrow> local_variables \<Rightarrow> local_variables" where
  "metric_update_ops loss labels preds lv =
     \<lparr>mean_loss_vars = snd (update_op mean_loss_metric [loss] (mean_loss_vars lv)),
      acc_vars = snd (update_op acc_metric (labels, preds) (acc_vars lv)),
      ppv_vars = snd (update_op ppv_metric (labels, preds) (ppv_vars lv)),
      sens_vars = snd (update_op sens_metric (labels, preds) (sens_vars lv))\<rparr>"

definition metric_reset_ops :: "local_variables \<Rightarrow> local_variables" where
  "metric_reset_ops lv =
     \<lparr>mean_loss_vars = reset_op mean_loss_metric (mean_loss_vars lv),
      acc_vars = reset_op acc_metric (acc_vars lv),
      ppv_vars = reset_op ppv_metric (ppv_vars lv),
      sens_vars = reset_op sens_metric (sens_vars lv)\<rparr>"

text \<open>
  A float32 result that need not be finite. \<open>tf_div\<close> is the division of two finite
  floats: a non-zero divisor gives the quotient, \<open>0 / 0\<close> is not-a-number, and any
  other \<open>x / 0\<close> is an infinity.
\<close>

datatype tfloat = Finite real | PosInf | NegInf | NaN

definition tf_div :: "real \<Rightarrow> real \<Rightarrow> tfloat" where
  "tf_div x y =
     (if y \<noteq> 0 then Finite (x / y)
      else if x = 0 then NaN
      else if x > 0 then PosInf else NegInf)"

text \<open>\<^verbatim>\<open>f1 = 2 * (ppv * sens) / (ppv + sens)\<close>, a tensor over the two metric ops.\<close>

definition f1 :: "local_variables \<Rightarrow> tfloat" where
  "f1 lv =
     (let ppv = metric_op ppv_metric (ppv_vars lv);
          sens = metric_op sens_metric (sens_vars lv)
      in tf_div (2 * (ppv * sens)) (ppv + sens))"

text \<open>The "epoch" summaries: the five scalars merged into \<^verbatim>\<open>epoch_summaries\<close>.\<close>

record epoch_summary =
  summary_loss :: real
  summary_acc :: real
  summary_ppv :: real
  summary_sens :: real
  summary_f1 :: tfloat

definition epoch_summaries :: "local_variables \<Rightarrow> epoch_summary" where
  "epoch_summaries lv =
     \<lparr>summary_loss = metric_op mean_loss_metric (mean_loss_vars lv),
      summary_acc = metric_op acc_metric (acc_vars lv),
      summary_ppv = metric_op ppv_metric (ppv_vars lv),
      summary_sens = metric_op sens_metric (sens_vars lv),
      summary_f1 = f1 lv\<rparr>"

section \<open>Dataset pipeline\<close>

text \<open>
  What the pipeline reads from outside the script is a parameter: the files matching a
  pattern, the decoded and resized image of a file (\<^verbatim>\<open>get_image\<close>: \<^verbatim>\<open>tf.read_file\<close>,
  \<^verbatim>\<open>decode_jpeg\<close>, \<^verbatim>\<open>convert_image_dtype\<close>, \<^verbatim>\<open>resize_images\<close>, which fails on a file that
  cannot be read or decoded), and the random draws: the order \<^verbatim>\<open>shuffle(500000)\<close> gives
  to the files and the two coin flips of \<^verbatim>\<open>augment\<close> for a file, both at the \<open>n\<close>-th
  initialisation of the iterator.
\<close>

record data_source =
  list_files :: "string \<Rightarrow> string list"
  read_image :: "string \<Rightarrow> int \<Rightarrow> error + image"
  shuffled :: "nat \<Rightarrow> string list \<Rightarrow> string list"
  flips :: "nat \<Rightarrow> string \<Rightarrow> bool \<times> bool"

definition get_image :: "data_source \<Rightarrow> string \<Rightarrow> int \<Rightarrow> error + image" where
  "get_image D filename patch_sz = read_image D filename patch_sz"

text \<open>
  \<^verbatim>\<open>augment(image)\<close>: \<^verbatim>\<open>random_flip_up_down\<close> reverses the rows, \<^verbatim>\<open>random_flip_left_right\<close>
  reverses every row, each when its coin says so.
\<close>

definition augment :: "bool \<times> bool \<Rightarrow> image \<Rightarrow> image" where
  "augment coins img =
     (let img = (if fst coins then rev img else img);
          img = (if snd coins then map rev img else img)
      in img)"

definition clip_by_value :: "image \<Rightarrow> real \<Rightarrow> real \<Rightarrow> image" where
  "clip_by_value img lo hi =
     map_image (\<lambda>(c0, c1, c2). (max lo (min hi c0), max lo (min hi c1), max lo (min hi c2))) img"

text \<open>
  \<^verbatim>\<open>preprocess(filename, patch_size, augmentation, model_name)\<close>. A failing label assertion
  or image read fails the element.
\<close>

type_synonym sample = "image \<times> real \<times> string"
type_synonym batch = "sample list"

definition preprocess ::
  "data_source \<Rightarrow> bool \<times> bool \<Rightarrow> string \<Rightarrow> int \<Rightarrow> bool \<Rightarrow> string \<Rightarrow> error + sample" where
  "preprocess D coins filename patch_sz augmenting mname =
     (case get_label filename of
        Inl e \<Rightarrow> Inl e
      | Inr label \<Rightarrow>
          (case get_image D filename patch_sz of
             Inl e \<Rightarrow> Inl e
           | Inr img \<Rightarrow>
               let img = (if augmenting then clip_by_value (augment coins img) 0 1 else img);
                   img = normalize img mname
               in Inr (img, label, filename)))"

text \<open>
  \<^verbatim>\<open>.batch(batch_size)\<close> cuts the stream into runs of \<open>batch_size\<close> elements, the last one
  possibly shorter; pulling a batch with a failed element raises that element's error.
\<close>

function chunk :: "nat \<Rightarrow> 'a list \<Rightarrow> 'a list list" where
  "chunk n xs = (if n = 0 \<or> xs = [] then [] else take n xs # chunk n (drop n xs))"
  by pat_completeness auto
termination
  by (relation "measure (\<lambda>(n, xs). length xs)") auto

declare chunk.simps [simp del]

fun collect_batch :: "(error + 'a) list \<Rightarrow> error + 'a list" where
  "collect_batch [] = Inr []"
| "collect_batch (Inl e # xs) = Inl e"
| "collect_batch (Inr x # xs) =
     (case collect_batch xs of Inl e \<Rightarrow> Inl e | Inr ys \<Rightarrow> Inr (x # ys))"

text \<open>
  The two datasets, as the lists of what an iterator initialised on them delivers until
  it is exhausted (\<open>n\<close> is the number of initialisations before this one). The
  validation dataset is mapped with \<^verbatim>\<open>preprocess(x, patch_size, False, model_name)\<close>.
\<close>

definition train_dataset :: "data_source \<Rightarrow> config \<Rightarrow> nat \<Rightarrow> (error + batch) list" where
  "train_dataset D cfg n =
     map collect_batch (chunk (nat (batch_size cfg))
       (map (\<lambda>x. preprocess D (flips D n x) x (patch_size cfg) (augmentation cfg) (model_name cfg))
          (shuffled D n (list_files D (train_path cfg @ ''/*/*.jpg'')))))"

definition val_dataset :: "data_source \<Rightarrow> config \<Rightarrow> nat \<Rightarrow> (error + batch) list" where
  "val_dataset D cfg n =
     map collect_batch (chunk (nat (batch_size cfg))
       (map (\<lambda>x. preprocess D (flips D n x) x (patch_size cfg) False (model_name cfg))
          (list_files D (val_path cfg @ ''/*/*.jpg''))))"

section \<open>Training controller\<close>

text \<open>
  The session holds the global variables (the model's weights and the optimizer's
  slots), the local variables (the metrics) and the random generators, here the number of
  iterator initialisations so far. The iterator itself is the list of what it still
  has to deliver; each pass rebinds it and runs it to its end.
\<close>

record ('w, 'o) session =
  variables :: "var \<Rightarrow> 'w"
  slots :: 'o
  local_vars :: local_variables
  inits :: nat

text \<open>
  An event written to a \<^verbatim>\<open>FileWriter\<close> by \<^verbatim>\<open>add_summary(summary_str, index)\<close>, and its
  index.
\<close>

datatype summary = Minibatch int real | Epoch int epoch_summary

fun summary_index :: "summary \<Rightarrow> int" where
  "summary_index (Minibatch i loss_val) = i"
| "summary_index (Epoch i e) = i"

text \<open>
  The files of the experiment folder that \<^verbatim>\<open>train\<close> writes and reads back: the TensorFlow
  checkpoint (the values of all global variables, and its index of their names and
  shapes), the pickled pair, and the Keras model files (the epoch of the file name and
  the weights).
\<close>

record ('w, 'o) experiment_files =
  model_ckpt :: "((var \<Rightarrow> 'w) \<times> 'o) option"
  model_ckpt_index :: "(var \<times> shape) list"
  global_step_epoch_pickle :: "(int \<times> int) option"
  keras_models :: "(int \<times> (var \<Rightarrow> 'w)) list"

text \<open>
  The state of \<^verbatim>\<open>train\<close> once the graph is built: the session, the two Python counters,
  the two writers and the files. (The \<^verbatim>\<open>print\<close> statements and the validation step
  counter \<^verbatim>\<open>vi\<close>, which only feeds them, are left out.)
\<close>

record ('w, 'o) train_state =
  sess :: "('w, 'o) session"
  global_step :: int
  global_epoch :: int
  train_writer :: "summary list"
  val_writer :: "summary list"
  files :: "('w, 'o) experiment_files"

text \<open>
  \<^verbatim>\<open>initialize_variables(sess)\<close> gives the variables their initial values and returns the
  counters 0, 0; the writers are new.
\<close>

definition initialize_variables ::
  "('w, 'o, batch) numerics \<Rightarrow> ('w, 'o) experiment_files \<Rightarrow> ('w, 'o) train_state" where
  "initialize_variables N fs =
     \<lparr>sess = \<lparr>variables = initial_variables N, slots = initial_slots N,
              local_vars = local_init, inits = 0\<rparr>,
      global_step = 0, global_epoch = 0, train_writer = [], val_writer = [], files = fs\<rparr>"

text \<open>
  \<^verbatim>\<open>saver.restore\<close> looks every variable of the saver up in the checkpoint: a variable
  that the checkpoint does not hold raises \<open>NotFoundError\<close>, one that it holds with
  another shape raises \<open>InvalidArgumentError\<close>. Variables that only the checkpoint has
  are ignored.
\<close>

definition restore_error :: "(var \<times> shape) list \<Rightarrow> (var \<times> shape) list \<Rightarrow> error option" where
  "restore_error wanted saved =
     (case filter (\<lambda>x. x \<notin> set saved) wanted of
        [] \<Rightarrow> None
      | (v, sh) # _ \<Rightarrow>
          Some (if v \<in> set (map fst saved) then InvalidArgumentError v else NotFoundError v))"

text \<open>
  The \<^verbatim>\<open>if resume:\<close> block: \<^verbatim>\<open>saver.restore\<close> loads the global variables from the
  checkpoint, then the pair is unpickled; either file may be missing. The map of
  variable values is total, and its values at names that are no variable of the graph
  stand for nothing; so the map of the checkpoint is taken as a whole.
\<close>

definition restore :: "graph \<Rightarrow> ('w, 'o) train_state \<Rightarrow> error + ('w, 'o) train_state" where
  "restore G s =
     (case model_ckpt (files s) of
        None \<Rightarrow> Inl (NotFoundError ''model.ckpt'')
      | Some (vars, sl) \<Rightarrow>
          (case restore_error (saver_vars G) (model_ckpt_index (files s)) of
             Some e \<Rightarrow> Inl e
           | None \<Rightarrow>
               (case global_step_epoch_pickle (files s) of
                  None \<Rightarrow> Inl (FileNotFoundError ''global_step_epoch.pickle'')
                | Some (step, ep) \<Rightarrow>
                    Inr (s\<lparr>sess := (sess s)\<lparr>variables := vars, slots := sl\<rparr>,
                           global_step := step, global_epoch := ep\<rparr>))))"

text \<open>
  \<^verbatim>\<open>sess.run(train_init_op)\<close> and \<^verbatim>\<open>sess.run(val_init_op)\<close>: the iterator is rebound to the
  dataset, which draws its random numbers anew; a batch size that is not positive is
  rejected.
\<close>

definition run_init_op ::
  "(nat \<Rightarrow> (error + batch) list) \<Rightarrow> config \<Rightarrow> ('w, 'o) train_state
     \<Rightarrow> error + (error + batch) list \<times> ('w, 'o) train_state" where
  "run_init_op dataset cfg s =
     (if batch_size cfg \<le> 0 then Inl (InvalidArgumentError ''batch_size'')
      else Inr (dataset (inits (sess s)), s\<lparr>sess := (sess s)\<lparr>inits := inits (sess s) + 1\<rparr>\<rparr>))"

text \<open>
  The labels of a batch, and one successful run of the body of the training loop on the
  batch pulled: both branches of the \<^verbatim>\<open>if\<close> run the train op and the metric updates with
  the learning phase fed as 1, the first one also writes the minibatch summary; then
  \<^verbatim>\<open>global_step += 1\<close>. Loss and predictions are those of the forward pass, before the
  weights are written.
\<close>

definition labels_of :: "batch \<Rightarrow> real list" where
  "labels_of b = map (\<lambda>(img, label, filename). label) b"

definition train_step ::
  "('w, 'o, batch) numerics \<Rightarrow> graph \<Rightarrow> config \<Rightarrow> phase \<Rightarrow> batch
     \<Rightarrow> ('w, 'o) train_state \<Rightarrow> ('w, 'o) train_state" where
  "train_step N G cfg train_op b s =
     (let loss_val = loss_tensor N (variables (sess s)) True b;
          preds = preds_tensor N (variables (sess s)) True b;
          lv = metric_update_ops loss_val (labels_of b) preds (local_vars (sess s));
          trained = run_train_op N G train_op b (variables (sess s), slots (sess s));
          s = s\<lparr>sess := (sess s)\<lparr>variables := fst trained, slots := snd trained,
                                  local_vars := lv\<rparr>\<rparr>;
          s = (if log_interval cfg > 0 \<and> global_step s mod log_interval cfg = 0
               then s\<lparr>train_writer := train_writer s @ [Minibatch (global_step s) loss_val]\<rparr>
               else s)
      in s\<lparr>global_step := global_step s + 1\<rparr>)"

text \<open>
  The \<^verbatim>\<open>while True\<close> loop of the training pass: \<^verbatim>\<open>OutOfRangeError\<close> (nothing left) breaks
  the loop; any other error is not caught.
\<close>

fun train_loop ::
  "('w, 'o, batch) numerics \<Rightarrow> graph \<Rightarrow> config \<Rightarrow> phase \<Rightarrow> (error + batch) list
     \<Rightarrow> ('w, 'o) train_state \<Rightarrow> error + ('w, 'o) train_state" where
  "train_loop N G cfg train_op [] s = Inr s"
| "train_loop N G cfg train_op (Inl e # iterator) s = Inl e"
| "train_loop N G cfg train_op (Inr b # iterator) s =
     train_loop N G cfg train_op iterator (train_step N G cfg train_op b s)"

text \<open>
  The body of the validation loop: the metric updates only, with the learning phase fed
  as 0.
\<close>

definition val_step ::
  "('w, 'o, batch) numerics \<Rightarrow> batch \<Rightarrow> ('w, 'o) train_state \<Rightarrow> ('w, 'o) train_state" where
  "val_step N b s =
     (let loss_val = loss_tensor N (variables (sess s)) False b;
          preds = preds_tensor N (variables (sess s)) False b;
          lv = metric_update_ops loss_val (labels_of b) preds (local_vars (sess s))
      in s\<lparr>sess := (sess s)\<lparr>local_vars := lv\<rparr>\<rparr>)"

fun val_loop ::
  "('w, 'o, batch) numerics \<Rightarrow> (error + batch) list
     \<Rightarrow> ('w, 'o) train_state \<Rightarrow> error + ('w, 'o) train_state" where
  "val_loop N [] s = Inr s"
| "val_loop N (Inl e # iterator) s = Inl e"
| "val_loop N (Inr b # iterator) s = val_loop N iterator (val_step N b s)"

text \<open>
  "log average ... metrics for epoch & reset": the epoch summaries are read, written to
  the writer under the index \<^verbatim>\<open>global_epoch\<close>, and the metrics are reset.
\<close>

definition log_train_epoch :: "('w, 'o) train_state \<Rightarrow> ('w, 'o) train_state" where
  "log_train_epoch s =
     s\<lparr>train_writer := train_writer s @ [Epoch (global_epoch s) (epoch_summaries (local_vars (sess s)))],
       sess := (sess s)\<lparr>local_vars := metric_reset_ops (local_vars (sess s))\<rparr>\<rparr>"

definition log_val_epoch :: "('w, 'o) train_state \<Rightarrow> ('w, 'o) train_state" where
  "log_val_epoch s =
     s\<lparr>val_writer := val_writer s @ [Epoch (global_epoch s) (epoch_summaries (local_vars (sess s)))],
       sess := (sess s)\<lparr>local_vars := metric_reset_ops (local_vars (sess s))\<rparr>\<rparr>"

text \<open>The training pass and the validation pass of one epoch.\<close>

definition train_pass ::
  "('w, 'o, batch) numerics \<Rightarrow> data_source \<Rightarrow> graph \<Rightarrow> config \<Rightarrow> phase
     \<Rightarrow> ('w, 'o) train_state \<Rightarrow> error + ('w, 'o) train_state" where
  "train_pass N D G cfg train_op s =
     (case run_init_op (train_dataset D cfg) cfg s of
        Inl e \<Rightarrow> Inl e
      | Inr (iterator, s) \<Rightarrow>
          (case train_loop N G cfg train_op iterator s of
             Inl e \<Rightarrow> Inl e
           | Inr s \<Rightarrow> Inr (log_train_epoch s)))"

definition val_pass ::
  "('w, 'o, batch) numerics \<Rightarrow> data_source \<Rightarrow> config
     \<Rightarrow> ('w, 'o) train_state \<Rightarrow> error + ('w, 'o) train_state" where
  "val_pass N D cfg s =
     (case run_init_op (val_dataset D cfg) cfg s of
        Inl e \<Rightarrow> Inl e
      | Inr (iterator, s) \<Rightarrow>
          (case val_loop N iterator s of
             Inl e \<Rightarrow> Inl e
           | Inr s \<Rightarrow> Inr (log_val_epoch s)))"

text \<open>
  "save model": the Keras model file, the TensorFlow checkpoint and the pickled
  \<^verbatim>\<open>(global_step, global_epoch)\<close>.
\<close>

definition save_model :: "graph \<Rightarrow> ('w, 'o) train_state \<Rightarrow> ('w, 'o) train_state" where
  "save_model G s =
     s\<lparr>files :=
         \<lparr>model_ckpt = Some (variables (sess s), slots (sess s)),
          model_ckpt_index = saver_vars G,
          global_step_epoch_pickle = Some (global_step s, global_epoch s),
          keras_models = keras_models (files s) @ [(global_epoch s, variables (sess s))]\<rparr>\<rparr>"

text \<open>The body of the epoch loop.\<close>

definition epoch ::
  "('w, 'o, batch) numerics \<Rightarrow> data_source \<Rightarrow> graph \<Rightarrow> config \<Rightarrow> phase
     \<Rightarrow> ('w, 'o) train_state \<Rightarrow> error + ('w, 'o) train_state" where
  "epoch N D G cfg train_op s =
     (case train_pass N D G cfg train_op s of
        Inl e \<Rightarrow> Inl e
      | Inr s \<Rightarrow>
          (case val_pass N D cfg s of
             Inl e \<Rightarrow> Inl e
           | Inr s \<Rightarrow>
               let s = s\<lparr>global_epoch := global_epoch s + 1\<rparr>
               in Inr (if checkpoint cfg then save_model G s else s)))"

text \<open>
  \<^verbatim>\<open>range(a, b)\<close>, and \<^verbatim>\<open>for _ in range(...)\<close> over the epoch body: the range is computed
  once, when the loop starts, and its elements are not used.
\<close>

definition py_range :: "int \<Rightarrow> int \<Rightarrow> int list" where
  "py_range a b = [a..b - 1]"

fun for_epochs ::
  "('w, 'o, batch) numerics \<Rightarrow> data_source \<Rightarrow> graph \<Rightarrow> config \<Rightarrow> phase \<Rightarrow> int list
     \<Rightarrow> ('w, 'o) train_state \<Rightarrow> error + ('w, 'o) train_state" where
  "for_epochs N D G cfg train_op [] s = Inr s"
| "for_epochs N D G cfg train_op (i # rest) s =
     (case epoch N D G cfg train_op s of
        Inl e \<Rightarrow> Inl e
      | Inr s \<Rightarrow> for_epochs N D G cfg train_op rest s)"

text \<open>
  "new classifier layers + fine-tuning combined training loop": the outer loop over
  \<^verbatim>\<open>[(clf_train_op, clf_epochs), (finetune_train_op, finetune_epochs)]\<close>.
\<close>

definition training_loop ::
  "('w, 'o, batch) numerics \<Rightarrow> data_source \<Rightarrow> graph \<Rightarrow> config
     \<Rightarrow> ('w, 'o) train_state \<Rightarrow> error + ('w, 'o) train_state" where
  "training_loop N D G cfg s =
     (case for_epochs N D G cfg Classifier
             (py_range (global_epoch s) (global_epoch s + clf_epochs cfg)) s of
        Inl e \<Rightarrow> Inl e
      | Inr s \<Rightarrow>
          for_epochs N D G cfg FineTune
            (py_range (global_epoch s) (global_epoch s + finetune_epochs cfg)) s)"

text \<open>
  The epochs of a list of phases, one after the other: what a training loop runs is
  stated as such a list.
\<close>

fun run_schedule ::
  "('w, 'o, batch) numerics \<Rightarrow> data_source \<Rightarrow> graph \<Rightarrow> config \<Rightarrow> phase list
     \<Rightarrow> ('w, 'o) train_state \<Rightarrow> error + ('w, 'o) train_state" where
  "run_schedule N D G cfg [] s = Inr s"
| "run_schedule N D G cfg (ph # phs) s =
     (case epoch N D G cfg ph s of
        Inl e \<Rightarrow> Inl e
      | Inr s \<Rightarrow> run_schedule N D G cfg phs s)"

text \<open>
  \<^verbatim>\<open>train(...)\<close>: what it has created, and the exception that ended it or the state it
  ends in.
\<close>

definition train ::
  "('w, 'o, batch) numerics \<Rightarrow> data_source \<Rightarrow> libraries \<Rightarrow> config
     \<Rightarrow> ('w, 'o) experiment_files \<Rightarrow> resource list \<times> (error + ('w, 'o) train_state)" where
  "train N D L cfg fs =
     (case build_graph L cfg of
        (made, Inl e) \<Rightarrow> (made, Inl e)
      | (made, Inr G) \<Rightarrow>
          (made @ [Session],
           let s = initialize_variables N fs
           in case (if resume cfg then restore G s else Inr s) of
                Inl e \<Rightarrow> Inl e
              | Inr s \<Rightarrow> training_loop N D G cfg s))"


section \<open>Example inputs\<close>

text \<open>The defaults of the argument parser; the experiment name is left to the caller.\<close>

definition default_args :: config where
  "default_args =
     \<lparr>train_path = ''data/mitoses/patches/train'', val_path = ''data/mitoses/patches/val'',
      exp_path = ''experiments/mitoses/sanity/exp'', model_name = ''vgg'',
      patch_size = 64, batch_size = 32, clf_epochs = 1, finetune_epochs = 0,
      clf_lr = 1 / 1000, finetune_lr = 1 / 10000, finetune_momentum = 9 / 10,
      finetune_layers = 0, l2 = 1 / 100, augmentation = True, log_interval = 100,
      threads = 5, checkpoint = True, resume = False\<rparr>"

text \<open>
  Stand-ins for the libraries. The two networks keep the first and the last layers of
  the real ones and shorten the middle: convolutions (kernel and bias), layers without
  weights (input, pooling, activation, addition) and batch normalisation (gamma and
  beta trainable, moving mean and variance non-trainable and assigned by the layer's
  update ops). VGG16 rejects inputs below 48 pixels, ResNet50 below 197; integers are
  converted when they fit the type; the patch size must be a positive int32; the dense
  kernel has one row per input value.
\<close>

definition conv_layer :: "string \<Rightarrow> layer" where
  "conv_layer name = \<lparr>layer_name = name, trainable = True,
     own_trainable_weights = [name @ ''/kernel'', name @ ''/bias''],
     own_non_trainable_weights = [], own_updates = []\<rparr>"

definition plain_layer :: "string \<Rightarrow> layer" where
  "plain_layer name = \<lparr>layer_name = name, trainable = True, own_trainable_weights = [],
     own_non_trainable_weights = [], own_updates = []\<rparr>"

definition batchnorm_layer :: "string \<Rightarrow> layer" where
  "batchnorm_layer name = \<lparr>layer_name = name, trainable = True,
     own_trainable_weights = [name @ ''/gamma'', name @ ''/beta''],
     own_non_trainable_weights = [name @ ''/moving_mean'', name @ ''/moving_variance''],
     own_updates = [name @ ''/moving_mean'', name @ ''/moving_variance'']\<rparr>"

definition small_vgg :: "layer list" where
  "small_vgg = [Input_layer, conv_layer ''block1_conv1'', conv_layer ''block5_conv3'',
                plain_layer ''block5_pool'']"

definition small_resnet :: "layer list" where
  "small_resnet = [Input_layer, conv_layer ''conv1'', batchnorm_layer ''bn_conv1'',
                   plain_layer ''activation_1'', conv_layer ''res5c_branch2c'',
                   batchnorm_layer ''bn5c_branch2c'', plain_layer ''add_16'',
                   plain_layer ''activation_49'', plain_layer ''avg_pool'']"

definition small_libs :: libraries where
  "small_libs =
     \<lparr>VGG16 = (\<lambda>p. if p < 48 then Inl (ValueError ''input size must be at least 48x48'')
                    else Inr small_vgg),
      ResNet50 = (\<lambda>p. if p < 197 then Inl (ValueError ''input size must be at least 197x197'')
                       else Inr small_resnet),
      dense_head = (\<lambda>name p. if p \<le> 0 then Some (ValueError ''dense input not defined'') else None),
      variable_shape = (\<lambda>name p v. if v = ''dense_1/kernel'' then [p * p * 3, 1] else [1]),
      int_tensor = (\<lambda>n t. case t of
          Int32 \<Rightarrow> if - (2 ^ 31) \<le> n \<and> n < 2 ^ 31 then None else Some (OverflowError ''int32'')
        | Int64 \<Rightarrow> if - (2 ^ 63) \<le> n \<and> n < 2 ^ 63 then None else Some (OverflowError ''int64'')),
      traced_preprocess = (\<lambda>p augmenting name.
          if 0 < p \<and> p < 2 ^ 31 then None else Some (ValueError ''size''))\<rparr>"

text \<open>
  Numerics over integer-valued variables: a gradient step subtracts \<open>lr\<close> from the
  variable, an update op adds one to it; all variables start at 0. The loss is 0 and
  every prediction 1.
\<close>

definition step_numerics :: "int \<Rightarrow> (int, unit, 'b) numerics" where
  "step_numerics lr =
     \<lparr>initial_variables = (\<lambda>v. 0),
      initial_slots = (),
      apply_gradient = (\<lambda>ph vars slots b v. vars v - lr),
      update_slots = (\<lambda>ph vs vars slots b. ()),
      run_update_op = (\<lambda>vars b v. vars v + 1),
      loss_tensor = (\<lambda>vars lp b. 0),
      preds_tensor = (\<lambda>vars lp b. [1])\<rparr>"

text \<open>
  A data source with one training file and one validation file, each a one-pixel image;
  nothing is shuffled or flipped. And an experiment folder without files.
\<close>

definition one_file_each :: data_source where
  "one_file_each =
     \<lparr>list_files = (\<lambda>pattern.
         if pattern = ''data/mitoses/patches/train/*/*.jpg''
           then [''data/mitoses/patches/train/mitosis/1_03_05_713_348.jpg'']
         else if pattern = ''data/mitoses/patches/val/*/*.jpg''
           then [''data/mitoses/patches/val/normal/1_03_05_713_348.jpg'']
         else []),
      read_image = (\<lambda>filename patch_sz. Inr [[(1 / 2, 1 / 2, 1 / 2)]]),
      shuffled = (\<lambda>n xs. xs),
      flips = (\<lambda>n filename. (False, False))\<rparr>"

definition no_files :: "('w, 'o) experiment_files" where
  "no_files = \<lparr>model_ckpt = None, model_ckpt_index = [], global_step_epoch_pickle = None,
               keras_models = []\<rparr>"

section \<open>Properties\<close>

subsection \<open>Splitting a path\<close>

lemma split_on_nonempty: "split_on d s \<noteq> []"
  by (induction s) (auto split: list.splits)

lemma split_on_no_delim: "d \<notin> set s \<Longrightarrow> split_on d s = [s]"
  by (induction s) auto

lemma split_on_append_delim:
  "split_on d (p @ d # s) = split_on d p @ split_on d s"
proof (induction p)
  case Nil
  show ?case by simp
next
  case (Cons c p)
  obtain t ts where ts: "split_on d p = t # ts"
    using split_on_nonempty [of d p] by (cases "split_on d p") auto
  show ?case using Cons ts by simp
qed

lemma string_split_append_delim:
  "string_split (p @ d # s) d = string_split p d @ string_split s d"
  by (simp add: string_split_def split_on_append_delim)

lemma string_split_token:
  "d \<notin> set t \<Longrightarrow> t \<noteq> [] \<Longrightarrow> string_split t d = [t]"
  by (simp add: string_split_def split_on_no_delim)

lemma string_split_path:
  assumes "d \<notin> set tok" "tok \<noteq> []" "d \<notin> set name" "name \<noteq> []"
  shows "string_split (dir @ d # tok @ d # name) d = string_split dir d @ [tok, name]"
  using assms by (simp add: string_split_append_delim string_split_token)

text \<open>
  Claim C4. The class token of a path is its second-to-last segment, the segments being
  the non-empty pieces between the slashes (what \<^verbatim>\<open>tf.string_split\<close> yields). Whenever
  the segments of \<open>filename\<close> end in \<open>tok\<close> and one more segment, \<open>get_label\<close> returns
  1.0 for the token "mitosis", 0.0 for "normal", and fails with an invalid-argument
  error (carrying the token) for any other token; no default label is returned.
\<close>

theorem get_label_class_token:
  assumes "string_split filename CHR ''/'' = dirs @ [tok, name]"
  shows "get_label filename =
           (if tok = ''mitosis'' then Inr 1
            else if tok = ''normal'' then Inr 0
            else Inl (InvalidArgumentError tok))"
  using assms by (simp add: get_label_def Let_def nth_append)

theorem get_label_class_token_witness:
  "string_split ''train/mitosis/1_03_05_713_348.jpg'' CHR ''/''
     = [''train''] @ [''mitosis'', ''1_03_05_713_348.jpg'']
   \<and> get_label ''train/mitosis/1_03_05_713_348.jpg'' = Inr 1
   \<and> string_split ''train/normal/1_03_05_713_348.jpg'' CHR ''/''
     = [''train''] @ [''normal'', ''1_03_05_713_348.jpg'']
   \<and> get_label ''train/normal/1_03_05_713_348.jpg'' = Inr 0
   \<and> string_split ''train/unknown/1_03_05_713_348.jpg'' CHR ''/''
     = [''train''] @ [''unknown'', ''1_03_05_713_348.jpg'']
   \<and> get_label ''train/unknown/1_03_05_713_348.jpg'' = Inl (InvalidArgumentError ''unknown'')"
proof -
  have m: "string_split ''train/mitosis/1_03_05_713_348.jpg'' CHR ''/''
     = [''train''] @ [''mitosis'', ''1_03_05_713_348.jpg'']"
    by (simp add: string_split_def)
  have n: "string_split ''train/normal/1_03_05_713_348.jpg'' CHR ''/''
     = [''train''] @ [''normal'', ''1_03_05_713_348.jpg'']"
    by (simp add: string_split_def)
  have u: "string_split ''train/unknown/1_03_05_713_348.jpg'' CHR ''/''
     = [''train''] @ [''unknown'', ''1_03_05_713_348.jpg'']"
    by (simp add: string_split_def)
  show ?thesis
    using m n u get_label_class_token [OF m] get_label_class_token [OF n]
      get_label_class_token [OF u]
    by simp
qed

subsection \<open>Normalisation\<close>

lemma map_image_comp: "map_image f (map_image g img) = map_image (f \<circ> g) img"
  by (simp add: map_image_def)

lemma image_within_map:
  assumes "image_within lo hi img"
    and "\<And>c0 c1 c2. lo \<le> c0 \<Longrightarrow> c0 \<le> hi \<Longrightarrow> lo \<le> c1 \<Longrightarrow> c1 \<le> hi \<Longrightarrow> lo \<le> c2 \<Longrightarrow> c2 \<le> hi
           \<Longrightarrow> (case f (c0, c1, c2) of (d0, d1, d2) \<Rightarrow>
                 lo' \<le> d0 \<and> d0 \<le> hi' \<and> lo' \<le> d1 \<and> d1 \<le> hi' \<and> lo' \<le> d2 \<and> d2 \<le> hi')"
  shows "image_within lo' hi' (map_image f img)"
  using assms unfolding image_within_def map_image_def list_all_iff
  by fastforce

lemma normalize_imagenet:
  assumes "mname = ''vgg'' \<or> mname = ''resnet''"
  shows "normalize img mname =
     map_image (\<lambda>(r, g, b). (255 * b - 103.939, 255 * g - 116.779, 255 * r - 123.68)) img"
  using assms
  by (auto simp: normalize_def image_mul_def reverse_channels_def image_sub_channels_def
      map_image_def split_def mult.commute)

lemma normalize_other:
  assumes "mname \<noteq> ''vgg''" "mname \<noteq> ''resnet''"
  shows "normalize img mname =
     map_image (\<lambda>(r, g, b). ((r - 0.5) * 2, (g - 0.5) * 2, (b - 0.5) * 2)) img"
  using assms
  by (auto simp: normalize_def image_mul_def image_sub_def map_image_def split_def)

text \<open>
  Claim C5. For an image with values in [0,1]: for "vgg" and "resnet", \<open>normalize\<close>
  returns, per pixel (r,g,b), the channels in the order b,g,r, each multiplied by 255
  (a value in [0,255]) minus the means 103.939, 116.779, 123.68 in that order; for any
  other model name it returns \<open>(x - 0.5) * 2\<close> on every channel, a value in [-1,1].
\<close>

theorem normalize_spec:
  assumes "image_within 0 1 img"
  shows "(if mname = ''vgg'' \<or> mname = ''resnet'' then
            normalize img mname =
              map_image (\<lambda>(r, g, b).
                (255 * b - 103.939, 255 * g - 116.779, 255 * r - 123.68)) img
            \<and> image_within 0 255
                (map_image (\<lambda>(x, y, z). (x + 103.939, y + 116.779, z + 123.68))
                   (normalize img mname))
          else
            normalize img mname =
              map_image (\<lambda>(r, g, b). ((r - 0.5) * 2, (g - 0.5) * 2, (b - 0.5) * 2)) img
            \<and> image_within (-1) 1 (normalize img mname))"
proof (cases "mname = ''vgg'' \<or> mname = ''resnet''")
  case True
  have eq: "normalize img mname =
     map_image (\<lambda>(r, g, b). (255 * b - 103.939, 255 * g - 116.779, 255 * r - 123.68)) img"
    by (rule normalize_imagenet [OF True])
  have "image_within 0 255
     (map_image ((\<lambda>(x, y, z). (x + 103.939, y + 116.779, z + 123.68)) \<circ>
        (\<lambda>(r, g, b). (255 * b - 103.939, 255 * g - 116.779, 255 * r - 123.68))) img)"
    by (rule image_within_map [OF assms]) simp
  then show ?thesis using True eq by (simp add: map_image_comp)
next
  case False
  then have ne: "mname \<noteq> ''vgg''" "mname \<noteq> ''resnet''" by auto
  have eq: "normalize img mname =
     map_image (\<lambda>(r, g, b). ((r - 0.5) * 2, (g - 0.5) * 2, (b - 0.5) * 2)) img"
    by (rule normalize_other [OF ne])
  have "image_within (-1) 1
     (map_image (\<lambda>(r, g, b). ((r - 0.5) * 2, (g - 0.5) * 2, (b - 0.5) * 2)) img)"
    by (rule image_within_map [OF assms]) simp
  then show ?thesis using False eq by simp
qed

theorem normalize_spec_witness:
  "image_within 0 1 [[(1, 0.5, 0), (0.2, 0.4, 1)]]
   \<and> normalize [[(1, 0.5, 0), (0.2, 0.4, 1)]] ''vgg''
       = [[(- 103.939, 10.721, 131.32), (151.061, - 14.779, - 72.68)]]
   \<and> normalize [[(1, 0.5, 0), (0.2, 0.4, 1)]] ''logreg''
       = [[(1, 0, - 1), (- 0.6, - 0.2, 1)]]"
proof -
  have h: "image_within 0 1 [[(1, 0.5, 0), (0.2, 0.4, 1)]]"
    by (simp add: image_within_def)
  show ?thesis
    using h normalize_spec [OF h, of "''vgg''"] normalize_spec [OF h, of "''logreg''"]
    by (simp add: map_image_def)
qed

subsection \<open>Resettable metrics\<close>

lemma update_op_mean:
  "update_op (create_reset_metric metrics_mean) b v =
     (safe_div (total v + sum_list b) (count v + real (length b)),
      \<lparr>total = total v + sum_list b, count = count v + real (length b)\<rparr>)"
  by (simp add: create_reset_metric_def metrics_mean_def)

lemma run_updates_mean_vars:
  "snd (run_updates (create_reset_metric metrics_mean) bs v) =
     \<lparr>total = total v + sum_list (concat bs),
      count = count v + real (length (concat bs))\<rparr>"
proof (induction bs arbitrary: v)
  case Nil
  show ?case by simp
next
  case (Cons b bs)
  show ?case
    by (simp add: update_op_mean split_def Cons.IH add.assoc)
qed

lemma reset_op_mean:
  "reset_op (create_reset_metric metrics_mean) v = \<lparr>total = 0, count = 0\<rparr>"
  by (simp add: create_reset_metric_def metrics_mean_def)

text \<open>
  Claim C3. After a reset, whatever the variables held before, the update op of the mean
  metric fed batch \<open>b\<close> after the batches \<open>bs\<close> returns the sum of all values fed since
  the reset divided by their number (0 when there is none): the aggregate, not the
  average of \<open>b\<close>. On the batches of \<^verbatim>\<open>test_resettable_metric\<close>: [1,0,0,0], [1,0,0,0],
  [0,0,0,0] give 1/4, 1/4, 1/6, and after the reset [0,0,0,0], [1,0,0,0] give 0, 1/8;
  reading the metric op returns the last aggregate.
\<close>

theorem reset_metric_accumulate_then_divide:
  "fst (update_op (create_reset_metric metrics_mean) b
         (snd (run_updates (create_reset_metric metrics_mean) bs
                (reset_op (create_reset_metric metrics_mean) v)))) =
     safe_div (sum_list (concat (bs @ [b]))) (real (length (concat (bs @ [b]))))
   \<and> run_updates (create_reset_metric metrics_mean)
        [[1, 0, 0, 0], [1, 0, 0, 0], [0, 0, 0, 0]] (m_init metrics_mean) =
       ([1 / 4, 1 / 4, 1 / 6], \<lparr>total = 2, count = 12\<rparr>)
   \<and> run_updates (create_reset_metric metrics_mean)
        [[0, 0, 0, 0], [1, 0, 0, 0]]
        (reset_op (create_reset_metric metrics_mean) \<lparr>total = 2, count = 12\<rparr>) =
       ([0, 1 / 8], \<lparr>total = 1, count = 8\<rparr>)
   \<and> metric_op (create_reset_metric metrics_mean) \<lparr>total = 2, count = 12\<rparr> = 1 / 6
   \<and> metric_op (create_reset_metric metrics_mean) \<lparr>total = 1, count = 8\<rparr> = 1 / 8"
proof -
  have "fst (update_op (create_reset_metric metrics_mean) b
         (snd (run_updates (create_reset_metric metrics_mean) bs
                (reset_op (create_reset_metric metrics_mean) v)))) =
     safe_div (sum_list (concat (bs @ [b]))) (real (length (concat (bs @ [b]))))"
    by (simp add: run_updates_mean_vars update_op_mean reset_op_mean)
  moreover have "run_updates (create_reset_metric metrics_mean)
        [[1, 0, 0, 0], [1, 0, 0, 0], [0, 0, 0, 0]] (m_init metrics_mean) =
       ([1 / 4, 1 / 4, 1 / 6], \<lparr>total = 2, count = 12\<rparr>)"
    by (simp add: update_op_mean safe_div_def) (simp add: metrics_mean_def)
  moreover have "run_updates (create_reset_metric metrics_mean)
        [[0, 0, 0, 0], [1, 0, 0, 0]]
        (reset_op (create_reset_metric metrics_mean) \<lparr>total = 2, count = 12\<rparr>) =
       ([0, 1 / 8], \<lparr>total = 1, count = 8\<rparr>)"
    by (simp add: update_op_mean reset_op_mean safe_div_def)
  moreover have "metric_op (create_reset_metric metrics_mean) \<lparr>total = 2, count = 12\<rparr> = 1 / 6"
    by (simp add: create_reset_metric_def metrics_mean_def safe_div_def)
  moreover have "metric_op (create_reset_metric metrics_mean) \<lparr>total = 1, count = 8\<rparr> = 1 / 8"
    by (simp add: create_reset_metric_def metrics_mean_def safe_div_def)
  ultimately show ?thesis by blast
qed

subsection \<open>Model assembly\<close>

lemma set_trainable_apply:
  "set_trainable b rs h r = (if r \<in> set rs then (h r)\<lparr>trainable := b\<rparr> else h r)"
  by (induction rs arbitrary: h) auto

lemma alloc_apply:
  "alloc ls a h r = (if a \<le> r \<and> r < a + length ls then ls ! (r - a) else h r)"
proof (induction ls arbitrary: a h)
  case Nil
  show ?case by auto
next
  case (Cons l ls)
  show ?case
    by (auto simp: Cons.IH nth_Cons' Suc_diff_le)
qed

lemma model_on_base_assembled: "assembled (model_on_base base)"
  unfolding assembled_def
  by (rule exI [of _ "[length base, length base + 1]"])
    (simp add: model_on_base_def Let_def alloc_apply trainable_weights_def head_vars_def
      nth_append Flatten_layer_def Dense_layer_def)

lemma build_model_assembled:
  assumes "build_model L name p = Inr m"
  shows "assembled m"
proof -
  consider "name = ''logreg''" | "name = ''vgg''" | "name = ''resnet''"
    using assms by (auto simp: build_model_def split: if_splits)
  then show ?thesis
  proof cases
    case 1
    then have m: "m = \<lparr>layer_heap = alloc [Input_layer, Flatten_layer, Dense_layer] 0 (\<lambda>_. Input_layer),
             model_base_layers = [], model_layers = [0, 1, 2]\<rparr>"
      using assms by (auto simp: build_model_def split: option.splits)
    show ?thesis
      unfolding assembled_def
      by (rule exI [of _ "[0, 1, 2]"])
        (simp add: m alloc_apply trainable_weights_def head_vars_def
          Input_layer_def Flatten_layer_def Dense_layer_def)
  next
    case 2
    then obtain base where "m = model_on_base base"
      using assms by (auto simp: build_model_def split: sum.splits option.splits)
    then show ?thesis by (simp add: model_on_base_assembled)
  next
    case 3
    then obtain base where "m = model_on_base base"
      using assms by (auto simp: build_model_def split: sum.splits option.splits)
    then show ?thesis by (simp add: model_on_base_assembled)
  qed
qed

lemma concat_map_Nil: "(\<And>x. x \<in> set xs \<Longrightarrow> f x = []) \<Longrightarrow> concat (map f xs) = []"
  by (induction xs) auto

lemma frozen_base_trainable_weights:
  "model_trainable_weights (set_trainable False base h) base = []"
  unfolding model_trainable_weights_def
  by (rule concat_map_Nil) (simp add: set_trainable_apply trainable_weights_def)



lemma build_graph_Inr:
  assumes "build_graph L cfg = (made, Inr G)"
  obtains m where "build_model L (model_name cfg) (patch_size cfg) = Inr m"
    and "G = build_optim m (finetune_layers cfg)
               (variable_shape L (model_name cfg) (patch_size cfg))"
  using assms by (auto simp: build_graph_def split: sum.splits option.splits prod.splits)

lemma run_train_op_other:
  assumes "v \<notin> set (var_list G ph)" "v \<notin> set (model_update_ops G ph)"
  shows "fst (run_train_op N G ph b (vars, sl)) v = vars v"
  using assms by (simp add: run_train_op_def)

lemma run_train_op_listed:
  assumes "v \<in> set (var_list G ph)"
  shows "fst (run_train_op N G ph b (vars, sl)) v = apply_gradient N ph vars sl b v"
  using assms by (simp add: run_train_op_def)

subsection \<open>The fine-tune variable list\<close>

lemma finetune_base_weights:
  assumes "distinct base"
  shows "model_trainable_weights
           (set_trainable True (last_n k base) (set_trainable False base h)) base
         = concat (map (\<lambda>r. own_trainable_weights (h r)) (last_n k base))"
proof -
  define j where "j = length base - k"
  define h2 where "h2 = set_trainable True (drop j base) (set_trainable False base h)"
  have disj: "set (take j base) \<inter> set (drop j base) = {}"
    using assms by (rule set_take_disj_set_drop_if_distinct) simp
  have A: "trainable_weights (h2 r) = []" if "r \<in> set (take j base)" for r
  proof -
    have "r \<notin> set (drop j base)" using that disj by blast
    moreover have "r \<in> set base" using that by (rule in_set_takeD)
    ultimately show ?thesis
      by (simp add: h2_def set_trainable_apply trainable_weights_def)
  qed
  have B: "trainable_weights (h2 r) = own_trainable_weights (h r)" if "r \<in> set (drop j base)" for r
    using that by (simp add: h2_def set_trainable_apply trainable_weights_def)
  have fr: "concat (map (\<lambda>r. trainable_weights (h2 r)) (take j base)) = []"
    by (rule concat_map_Nil) (rule A)
  have bk: "map (\<lambda>r. trainable_weights (h2 r)) (drop j base)
      = map (\<lambda>r. own_trainable_weights (h r)) (drop j base)"
    by (rule map_cong) (simp_all add: B)
  have "concat (map (\<lambda>r. trainable_weights (h2 r)) base)
      = concat (map (\<lambda>r. trainable_weights (h2 r)) (take j base))
        @ concat (map (\<lambda>r. trainable_weights (h2 r)) (drop j base))"
    by (simp only: map_append [symmetric] concat_append [symmetric] append_take_drop_id)
  then have "concat (map (\<lambda>r. trainable_weights (h2 r)) base)
      = concat (map (\<lambda>r. own_trainable_weights (h r)) (drop j base))"
    by (simp only: fr bk append_Nil)
  then show ?thesis
    by (simp add: model_trainable_weights_def last_n_def h2_def j_def)
qed

text \<open>The layers that the "optim" section unfreezes, and those it leaves frozen.\<close>

lemma build_optim_finetune:
  assumes "assembled m"
  shows "finetune_var_list (build_optim m n sh) =
           concat (map (\<lambda>r. own_trainable_weights (layer_heap m r))
                    (unfrozen_layers n (model_base_layers m))) @ head_vars"
    and "finetune_model_update_ops (build_optim m n sh) =
           concat (map (\<lambda>r. own_updates (layer_heap m r)) (model_base_layers m))"
proof -
  obtain hd_refs where ml: "model_layers m = model_base_layers m @ hd_refs"
    and dist: "distinct (model_base_layers m)"
    and disj: "set hd_refs \<inter> set (model_base_layers m) = {}"
    and hv: "concat (map (\<lambda>r. trainable_weights (layer_heap m r)) hd_refs) = head_vars"
    and hu: "concat (map (\<lambda>r. own_updates (layer_heap m r)) hd_refs) = []"
    using assms unfolding assembled_def by blast
  define base where "base = model_base_layers m"
  define h1 where "h1 = set_trainable False base (layer_heap m)"
  define h2 where "h2 = (if n > 0 then set_trainable True (last_n (nat n) base) h1 else h1)"
  have sub: "set (unfrozen_layers n base) \<subseteq> set base"
    by (auto simp: unfrozen_layers_def last_n_def dest: in_set_dropD)
  have h2: "h2 r = (if r \<in> set (unfrozen_layers n base) then (layer_heap m r)\<lparr>trainable := True\<rparr>
                    else if r \<in> set base then (layer_heap m r)\<lparr>trainable := False\<rparr>
                    else layer_heap m r)" for r
    using sub by (auto simp: h2_def h1_def unfrozen_layers_def set_trainable_apply)
  have hd: "h2 r = layer_heap m r" if "r \<in> set hd_refs" for r
    using that disj sub by (auto simp: h2 base_def)
  have base_part: "model_trainable_weights h2 base =
      concat (map (\<lambda>r. own_trainable_weights (layer_heap m r)) (unfrozen_layers n base))"
  proof (cases "n > 0")
    case True
    then show ?thesis
      using finetune_base_weights [OF dist, of "nat n" "layer_heap m"]
      by (simp add: h2_def h1_def base_def unfrozen_layers_def)
  next
    case False
    then show ?thesis
      using frozen_base_trainable_weights [of base "layer_heap m"]
      by (simp add: h2_def h1_def unfrozen_layers_def)
  qed
  have head_part: "concat (map (\<lambda>r. trainable_weights (h2 r)) hd_refs) = head_vars"
    using hd hv by (simp cong: map_cong)
  have "model_trainable_weights h2 (model_layers m) =
      concat (map (\<lambda>r. own_trainable_weights (layer_heap m r)) (unfrozen_layers n base)) @ head_vars"
    using base_part head_part by (simp add: model_trainable_weights_def ml base_def)
  moreover have "finetune_var_list (build_optim m n sh) = model_trainable_weights h2 (model_layers m)"
    by (simp add: build_optim_def Let_def h2_def h1_def base_def)
  ultimately show "finetune_var_list (build_optim m n sh) =
           concat (map (\<lambda>r. own_trainable_weights (layer_heap m r))
                    (unfrozen_layers n (model_base_layers m))) @ head_vars"
    by (simp add: base_def)
  have upd: "own_updates (h2 r) = own_updates (layer_heap m r)" for r
    by (simp add: h2)
  have "model_updates h2 (model_layers m) =
      concat (map (\<lambda>r. own_updates (layer_heap m r)) base)"
    using hu by (simp add: model_updates_def upd ml base_def)
  moreover have "finetune_model_update_ops (build_optim m n sh) = model_updates h2 (model_layers m)"
    by (simp add: build_optim_def Let_def h2_def h1_def base_def)
  ultimately show "finetune_model_update_ops (build_optim m n sh) =
           concat (map (\<lambda>r. own_updates (layer_heap m r)) (model_base_layers m))"
    by (simp add: base_def)
qed

lemma build_optim_weights:
  "weights (layer_heap (final_model (build_optim m n sh)) r) = weights (layer_heap m r)"
  by (simp add: build_optim_def Let_def set_trainable_apply weights_def)

lemma build_optim_refs:
  "model_base_layers (final_model (build_optim m n sh)) = model_base_layers m"
  "model_layers (final_model (build_optim m n sh)) = model_layers m"
  by (simp_all add: build_optim_def Let_def)

lemma distinct_concat_map_disjoint:
  assumes "distinct (concat (map f xs))" "x \<in> set xs" "y \<in> set xs" "x \<noteq> y"
  shows "set (f x) \<inter> set (f y) = {}"
  using assms
proof (induction xs)
  case Nil
  then show ?case by simp
next
  case (Cons a xs)
  have sub: "set (f z) \<subseteq> set (concat (map f xs))" if "z \<in> set xs" for z
    using that by auto
  from Cons.prems have d: "set (f a) \<inter> set (concat (map f xs)) = {}"
    and dx: "distinct (concat (map f xs))" by auto
  show ?case
  proof (cases "x = a")
    case True
    then have "y \<in> set xs" using Cons.prems by auto
    then show ?thesis using sub [of y] d True by blast
  next
    case False
    then have x: "x \<in> set xs" using Cons.prems by auto
    show ?thesis
    proof (cases "y = a")
      case True
      then show ?thesis using sub [OF x] d by blast
    next
      case False
      then have "y \<in> set xs" using Cons.prems by auto
      then show ?thesis using Cons.IH [OF dx x] Cons.prems(4) by blast
    qed
  qed
qed

lemma frozen_unfrozen_disjoint:
  assumes "distinct base"
  shows "set (frozen_layers n base) \<inter> set (unfrozen_layers n base) = {}"
proof (cases "n > 0")
  case True
  have "length base - length (drop (length base - nat n) base) = length base - nat n"
    by simp
  then show ?thesis
    using True set_take_disj_set_drop_if_distinct [OF assms, of "length base - nat n" "length base - nat n"]
    by (simp add: frozen_layers_def unfrozen_layers_def last_n_def)
next
  case False
  then show ?thesis by (simp add: unfrozen_layers_def)
qed

lemma frozen_layers_subset: "set (frozen_layers n base) \<subseteq> set base"
  by (auto simp: frozen_layers_def dest: in_set_takeD)

lemma unfrozen_layers_subset: "set (unfrozen_layers n base) \<subseteq> set base"
  by (auto simp: unfrozen_layers_def last_n_def dest: in_set_dropD)

text \<open>
  With variable names unique across the layers of the model, no weight of a frozen base
  layer is in the fine-tune variable list.
\<close>

lemma frozen_weight_not_listed:
  assumes asm: "assembled m"
    and dist: "distinct (concat (map (\<lambda>r. weights (layer_heap m r)) (model_layers m)))"
    and r: "r \<in> set (frozen_layers n (model_base_layers m))"
    and v: "v \<in> set (weights (layer_heap m r))"
  shows "v \<notin> set (finetune_var_list (build_optim m n sh))"
proof
  assume listed: "v \<in> set (finetune_var_list (build_optim m n sh))"
  obtain hd_refs where ml: "model_layers m = model_base_layers m @ hd_refs"
    and db: "distinct (model_base_layers m)"
    and disj: "set hd_refs \<inter> set (model_base_layers m) = {}"
    and hv: "concat (map (\<lambda>r. trainable_weights (layer_heap m r)) hd_refs) = head_vars"
    using asm unfolding assembled_def by blast
  have rb: "r \<in> set (model_base_layers m)" using r frozen_layers_subset by blast
  then have rm: "r \<in> set (model_layers m)" by (simp add: ml)
  have tw: "set (trainable_weights l) \<subseteq> set (weights l)" for l
    by (auto simp: trainable_weights_def weights_def)
  from listed consider
      r' where "r' \<in> set (unfrozen_layers n (model_base_layers m))"
        "v \<in> set (own_trainable_weights (layer_heap m r'))"
    | "v \<in> set head_vars"
    by (auto simp: build_optim_finetune(1) [OF asm])
  then show False
  proof cases
    case 1
    have "r' \<noteq> r" using 1(1) r frozen_unfrozen_disjoint [OF db, of n] by blast
    moreover have "r' \<in> set (model_layers m)"
      using 1(1) unfrozen_layers_subset by (auto simp: ml)
    moreover have "v \<in> set (weights (layer_heap m r'))" using 1(2) by (simp add: weights_def)
    ultimately show False
      using distinct_concat_map_disjoint [OF dist rm, of r'] v by blast
  next
    case 2
    then obtain r' where r': "r' \<in> set hd_refs" and "v \<in> set (trainable_weights (layer_heap m r'))"
      by (auto simp: hv [symmetric])
    then have "v \<in> set (weights (layer_heap m r'))" using tw by blast
    moreover have "r' \<noteq> r" using r' rb disj by blast
    moreover have "r' \<in> set (model_layers m)" using r' by (simp add: ml)
    ultimately show False
      using distinct_concat_map_disjoint [OF dist rm, of r'] v by blast
  qed
qed

subsection \<open>Unknown model name\<close>







subsection \<open>The classifier train op\<close>


text \<open>The graphs of the stand-in networks, for the default and for a larger patch size.\<close>

lemma build_graph_small_vgg:
  assumes "model_name cfg = ''vgg''" "patch_size cfg = 64" "threads cfg = 5" "batch_size cfg = 32"
  shows "build_graph small_libs cfg =
           ([TrainDataset, ValDataset, DataIterator, BatchTensors, IteratorInitOps,
             ModelLayers, LossOp, ClfOptimizer, FinetuneOptimizer,
             MetricOps, SummaryOps, SummaryWriters, SaverOp],
            Inr (build_optim (model_on_base small_vgg) (finetune_layers cfg)
                   (variable_shape small_libs ''vgg'' 64)))"
  using assms
  by (simp add: build_graph_def data_section_def dataset_errors_def build_model_def
      small_libs_def)

lemma build_graph_small_resnet:
  assumes "model_name cfg = ''resnet''" "patch_size cfg = 224" "threads cfg = 5"
    "batch_size cfg = 32"
  shows "build_graph small_libs cfg =
           ([TrainDataset, ValDataset, DataIterator, BatchTensors, IteratorInitOps,
             ModelLayers, LossOp, ClfOptimizer, FinetuneOptimizer,
             MetricOps, SummaryOps, SummaryWriters, SaverOp],
            Inr (build_optim (model_on_base small_resnet) (finetune_layers cfg)
                   (variable_shape small_libs ''resnet'' 224)))"
  using assms
  by (simp add: build_graph_def data_section_def dataset_errors_def build_model_def
      small_libs_def)

lemmas small_layer_defs =
  small_vgg_def small_resnet_def conv_layer_def plain_layer_def batchnorm_layer_def
  Input_layer_def Flatten_layer_def Dense_layer_def

lemmas optim_eval_defs =
  build_optim_def model_on_base_def Let_def model_updates_def model_trainable_weights_def
  trainable_weights_def weights_def set_trainable_apply alloc_apply last_n_def
  frozen_layers_def unfrozen_layers_def



subsection \<open>The fine-tune train op\<close>

text \<open>
  Claim C6, as the code has it. For every configuration whose graph can be built, the
  fine-tune optimizer's variable list is the trainable weights of the last
  \<open>finetune_layers\<close> base layers (none when \<open>finetune_layers \<le> 0\<close>) followed by the dense
  head's kernel and bias. With variable names unique across the layers, one fine-tune
  train step leaves every weight of the other (frozen) base layers as it was, unless
  one of the model's update ops assigns it; the variables of the list receive the
  optimizer's result.
\<close>

theorem finetune_step_frame:
  assumes "build_graph L cfg = (made, Inr G)"
    and "distinct (concat (map (\<lambda>r. weights (layer_heap (final_model G) r))
                             (model_layers (final_model G))))"
  shows "finetune_var_list G =
           concat (map (\<lambda>r. own_trainable_weights (layer_heap (final_model G) r))
                     (unfrozen_layers (finetune_layers cfg) (model_base_layers (final_model G))))
           @ head_vars
    \<and> (\<forall>r \<in> set (frozen_layers (finetune_layers cfg) (model_base_layers (final_model G))).
         \<forall>v \<in> set (weights (layer_heap (final_model G) r)).
           v \<notin> set (finetune_model_update_ops G) \<longrightarrow>
           fst (run_train_op N G FineTune b (vars, sl)) v = vars v)
    \<and> (\<forall>v \<in> set (finetune_var_list G).
         fst (run_train_op N G FineTune b (vars, sl)) v
           = apply_gradient N FineTune vars sl b v)"
proof -
  define sh where "sh = variable_shape L (model_name cfg) (patch_size cfg)"
  obtain m where m: "build_model L (model_name cfg) (patch_size cfg) = Inr m"
    and G: "G = build_optim m (finetune_layers cfg) sh"
    using assms(1) unfolding sh_def by (rule build_graph_Inr)
  have asm: "assembled m" using m by (rule build_model_assembled)
  have otw: "own_trainable_weights (layer_heap (final_model G) r)
      = own_trainable_weights (layer_heap m r)" for r
    by (simp add: G build_optim_def Let_def set_trainable_apply)
  have dist: "distinct (concat (map (\<lambda>r. weights (layer_heap m r)) (model_layers m)))"
    using assms(2) by (simp add: G build_optim_weights build_optim_refs)
  have fv: "finetune_var_list G =
           concat (map (\<lambda>r. own_trainable_weights (layer_heap (final_model G) r))
                     (unfrozen_layers (finetune_layers cfg) (model_base_layers (final_model G))))
           @ head_vars"
    by (simp add: otw) (simp add: G build_optim_finetune(1) [OF asm] build_optim_refs)
  have fr: "fst (run_train_op N G FineTune b (vars, sl)) v = vars v"
    if "r \<in> set (frozen_layers (finetune_layers cfg) (model_base_layers (final_model G)))"
      "v \<in> set (weights (layer_heap (final_model G) r))"
      "v \<notin> set (finetune_model_update_ops G)" for r v
  proof -
    have "v \<notin> set (finetune_var_list (build_optim m (finetune_layers cfg) sh))"
      using that(1,2)
      by (intro frozen_weight_not_listed [OF asm dist, of r])
        (simp_all add: G build_optim_weights build_optim_refs)
    then show ?thesis
      using that(3) by (simp add: run_train_op_def var_list_def model_update_ops_def G)
  qed
  have ap: "fst (run_train_op N G FineTune b (vars, sl)) v
           = apply_gradient N FineTune vars sl b v" if "v \<in> set (finetune_var_list G)" for v
    using that by (simp add: run_train_op_def var_list_def)
  show ?thesis using fv fr ap by blast
qed

theorem finetune_step_frame_witness:
  "\<exists>G. build_graph small_libs (default_args\<lparr>finetune_layers := 2\<rparr>)
         = (fst (build_graph small_libs (default_args\<lparr>finetune_layers := 2\<rparr>)), Inr G)
     \<and> distinct (concat (map (\<lambda>r. weights (layer_heap (final_model G) r))
                            (model_layers (final_model G))))
     \<and> frozen_layers 2 (model_base_layers (final_model G)) = [0, 1]
     \<and> weights (layer_heap (final_model G) 1) = [''block1_conv1/kernel'', ''block1_conv1/bias'']
     \<and> finetune_var_list G =
         [''block5_conv3/kernel'', ''block5_conv3/bias'', ''dense_1/kernel'', ''dense_1/bias'']
     \<and> fst (run_train_op (step_numerics 1) G FineTune () (\<lambda>v. 0, ())) ''block1_conv1/kernel'' = 0
     \<and> fst (run_train_op (step_numerics 1) G FineTune () (\<lambda>v. 0, ())) ''block5_conv3/kernel'' = - 1
     \<and> fst (run_train_op (step_numerics 1) G FineTune () (\<lambda>v. 0, ())) ''dense_1/bias'' = - 1"
proof -
  define cfg where "cfg = default_args\<lparr>finetune_layers := 2\<rparr>"
  define G where "G = build_optim (model_on_base small_vgg) 2 (variable_shape small_libs ''vgg'' 64)"
  have "build_graph small_libs cfg = (fst (build_graph small_libs cfg), Inr G)"
    by (simp add: build_graph_small_vgg G_def cfg_def default_args_def)
  then have b: "build_graph small_libs (default_args\<lparr>finetune_layers := 2\<rparr>)
         = (fst (build_graph small_libs (default_args\<lparr>finetune_layers := 2\<rparr>)), Inr G)"
    by (simp add: cfg_def)
  have fl: "finetune_layers (default_args\<lparr>finetune_layers := 2\<rparr>) = 2" by simp
  have ml: "model_layers (final_model G) = [0, 1, 2, 3, 4, 5]"
    and bl: "model_base_layers (final_model G) = [0, 1, 2, 3]"
    by (simp_all add: G_def build_optim_def model_on_base_def Let_def small_vgg_def)
  have w: "weights (layer_heap (final_model G) 0) = []"
    "weights (layer_heap (final_model G) (Suc 0)) = [''block1_conv1/kernel'', ''block1_conv1/bias'']"
    "weights (layer_heap (final_model G) 2) = [''block5_conv3/kernel'', ''block5_conv3/bias'']"
    "weights (layer_heap (final_model G) 3) = []"
    "weights (layer_heap (final_model G) 4) = []"
    "weights (layer_heap (final_model G) 5) = [''dense_1/kernel'', ''dense_1/bias'']"
    by (simp_all add: G_def optim_eval_defs small_layer_defs)
  have d: "distinct (concat (map (\<lambda>r. weights (layer_heap (final_model G) r))
                            (model_layers (final_model G))))"
    by (simp add: ml w)
  have u: "finetune_model_update_ops G = []"
    by (simp add: G_def optim_eval_defs small_layer_defs)
  have fz: "frozen_layers 2 (model_base_layers (final_model G)) = [0, 1]"
    and uz: "unfrozen_layers 2 (model_base_layers (final_model G)) = [2, 3]"
    by (simp_all add: bl frozen_layers_def unfrozen_layers_def last_n_def)
  have otw: "own_trainable_weights (layer_heap (final_model G) 2)
        = [''block5_conv3/kernel'', ''block5_conv3/bias'']"
    "own_trainable_weights (layer_heap (final_model G) 3) = []"
    by (simp_all add: G_def optim_eval_defs small_layer_defs)
  note t = finetune_step_frame [OF b d, of "step_numerics 1" "()" "\<lambda>v. 0" "()", unfolded fl fz uz]
  have f: "finetune_var_list G =
         [''block5_conv3/kernel'', ''block5_conv3/bias'', ''dense_1/kernel'', ''dense_1/bias'']"
    using t by (simp add: otw head_vars_def)
  have k1: "fst (run_train_op (step_numerics 1) G FineTune () (\<lambda>v. 0, ())) ''block1_conv1/kernel'' = 0"
    using t by (simp add: w u)
  have k2: "fst (run_train_op (step_numerics 1) G FineTune () (\<lambda>v. 0, ())) ''block5_conv3/kernel'' = - 1"
    using t by (simp add: f step_numerics_def)
  have k3: "fst (run_train_op (step_numerics 1) G FineTune () (\<lambda>v. 0, ())) ''dense_1/bias'' = - 1"
    using t by (simp add: f step_numerics_def)
  have w1: "weights (layer_heap (final_model G) 1) = [''block1_conv1/kernel'', ''block1_conv1/bias'']"
    using w(2) by simp
  show ?thesis using b d fz w1 f k1 k2 k3 by blast
qed

text \<open>
  The claim as stated is false for "resnet" (with a patch size that ResNet50 accepts),
  \<open>finetune_layers = 1\<close> and a fine-tune learning rate of 0: the last base layer, the
  only one unfrozen, has no weights, so the optimizer's list is the dense head; the
  moving mean of the frozen batch-normalisation layer after the first convolution
  changes, because the fine-tune train op runs the model's update ops; and the kernel
  of the dense head, which is in the optimizer's list, receives a zero update and keeps
  its value.
\<close>

theorem finetune_step_counterexample:
  "(case snd (build_graph small_libs
               (default_args\<lparr>model_name := ''resnet'', patch_size := 224,
                               finetune_lr := 0, finetune_layers := 1\<rparr>)) of
      Inl e \<Rightarrow> False
    | Inr G \<Rightarrow>
        2 \<in> set (frozen_layers 1 (model_base_layers (final_model G)))
        \<and> layer_name (layer_heap (final_model G) 2) = ''bn_conv1''
        \<and> ''bn_conv1/moving_mean'' \<in> set (weights (layer_heap (final_model G) 2))
        \<and> fst (run_train_op (step_numerics 0) G FineTune () (\<lambda>v. 0, ()))
            ''bn_conv1/moving_mean'' = 1
        \<and> finetune_var_list G = [''dense_1/kernel'', ''dense_1/bias'']
        \<and> fst (run_train_op (step_numerics 0) G FineTune () (\<lambda>v. 0, ()))
            ''dense_1/kernel'' = 0)"
  by (simp add: build_graph_small_resnet default_args_def optim_eval_defs small_layer_defs
      run_train_op_def var_list_def model_update_ops_def step_numerics_def)

subsection \<open>Batching\<close>

lemma chunk_Nil: "chunk n [] = []"
  by (simp add: chunk.simps)

lemma chunk_Cons:
  "0 < n \<Longrightarrow> chunk n (x # xs) = take n (x # xs) # chunk n (drop n (x # xs))"
  by (subst chunk.simps) simp

subsection \<open>The derived metric f1\<close>

lemma metric_op_ppv:
  "metric_op ppv_metric v = safe_div (true_positives v) (true_positives v + false_positives v)"
  by (simp add: ppv_metric_def create_reset_metric_def metrics_precision_def)

lemma metric_op_sens:
  "metric_op sens_metric v =
     safe_div (recall_true_positives v) (recall_true_positives v + false_negatives v)"
  by (simp add: sens_metric_def create_reset_metric_def metrics_recall_def)

lemma f1_reset: "f1 (metric_reset_ops lv) = NaN"
  by (simp add: f1_def metric_reset_ops_def metric_op_ppv metric_op_sens safe_div_def tf_div_def
      ppv_metric_def sens_metric_def create_reset_metric_def metrics_precision_def
      metrics_recall_def)

lemma val_loop_Nil_pass:
  assumes "0 < batch_size cfg" "val_dataset D cfg (inits (sess s)) = []"
  shows "val_pass N D cfg s =
           Inr (log_val_epoch (s\<lparr>sess := (sess s)\<lparr>inits := inits (sess s) + 1\<rparr>\<rparr>))"
  using assms by (simp add: val_pass_def run_init_op_def)

text \<open>
  Claim C9. \<open>f1\<close> is \<open>2 * (ppv * sens) / (ppv + sens)\<close> of the values the precision
  and recall ops have when it is read: it is the finite quotient when their sum is not
  zero, not-a-number when their sum is zero (the two values are never negative, so both
  are zero then), it depends on no variable but those of the two metrics, and it is
  not-a-number right after a reset. The end of a pass writes the
  summary with this \<open>f1\<close> to the writer as it is; a validation pass over no data, with
  freshly reset metrics, ends normally after writing a summary whose \<open>f1\<close> is
  not-a-number.
\<close>

theorem f1_read_time:
  "(metric_op ppv_metric (ppv_vars lv) + metric_op sens_metric (sens_vars lv) \<noteq> 0 \<longrightarrow>
      f1 lv = Finite (2 * metric_op ppv_metric (ppv_vars lv) * metric_op sens_metric (sens_vars lv)
                      / (metric_op ppv_metric (ppv_vars lv) + metric_op sens_metric (sens_vars lv))))
   \<and> (0 \<le> metric_op ppv_metric (ppv_vars lv) \<and> 0 \<le> metric_op sens_metric (sens_vars lv)
        \<and> metric_op ppv_metric (ppv_vars lv) + metric_op sens_metric (sens_vars lv) = 0 \<longrightarrow>
        f1 lv = NaN)
   \<and> (ppv_vars lv' = ppv_vars lv \<and> sens_vars lv' = sens_vars lv \<longrightarrow> f1 lv' = f1 lv)
   \<and> f1 (metric_reset_ops lv) = NaN
   \<and> summary_f1 (epoch_summaries lv) = f1 lv
   \<and> val_writer (log_val_epoch s) =
        val_writer s @ [Epoch (global_epoch s) (epoch_summaries (local_vars (sess s)))]
   \<and> train_writer (log_train_epoch s) =
        train_writer s @ [Epoch (global_epoch s) (epoch_summaries (local_vars (sess s)))]
   \<and> (0 < batch_size cfg \<and> val_dataset D cfg (inits (sess s)) = []
        \<and> local_vars (sess s) = metric_reset_ops lv0 \<longrightarrow>
        (\<exists>s' e. val_pass N D cfg s = Inr s'
           \<and> val_writer s' = val_writer s @ [Epoch (global_epoch s) e] \<and> summary_f1 e = NaN))"
proof -
  have a: "f1 lv = Finite (2 * metric_op ppv_metric (ppv_vars lv) * metric_op sens_metric (sens_vars lv)
                      / (metric_op ppv_metric (ppv_vars lv) + metric_op sens_metric (sens_vars lv)))"
    if "metric_op ppv_metric (ppv_vars lv) + metric_op sens_metric (sens_vars lv) \<noteq> 0"
    using that by (simp add: f1_def Let_def tf_div_def)
  have b: "f1 lv = NaN"
    if "0 \<le> metric_op ppv_metric (ppv_vars lv) \<and> 0 \<le> metric_op sens_metric (sens_vars lv)
        \<and> metric_op ppv_metric (ppv_vars lv) + metric_op sens_metric (sens_vars lv) = 0"
  proof -
    from that have "metric_op ppv_metric (ppv_vars lv) = 0"
      and "metric_op sens_metric (sens_vars lv) = 0" by linarith+
    then show ?thesis by (simp add: f1_def Let_def tf_div_def)
  qed
  have c: "f1 lv' = f1 lv" if "ppv_vars lv' = ppv_vars lv \<and> sens_vars lv' = sens_vars lv"
    using that by (simp add: f1_def)
  have d: "summary_f1 (epoch_summaries lv) = f1 lv"
    by (simp add: epoch_summaries_def)
  have e: "val_writer (log_val_epoch s) =
        val_writer s @ [Epoch (global_epoch s) (epoch_summaries (local_vars (sess s)))]"
    by (simp add: log_val_epoch_def)
  have f: "train_writer (log_train_epoch s) =
        train_writer s @ [Epoch (global_epoch s) (epoch_summaries (local_vars (sess s)))]"
    by (simp add: log_train_epoch_def)
  have g: "\<exists>s' e. val_pass N D cfg s = Inr s'
           \<and> val_writer s' = val_writer s @ [Epoch (global_epoch s) e] \<and> summary_f1 e = NaN"
    if h: "0 < batch_size cfg \<and> val_dataset D cfg (inits (sess s)) = []
        \<and> local_vars (sess s) = metric_reset_ops lv0"
  proof -
    have "val_pass N D cfg s =
           Inr (log_val_epoch (s\<lparr>sess := (sess s)\<lparr>inits := inits (sess s) + 1\<rparr>\<rparr>))"
      using h by (simp add: val_loop_Nil_pass)
    moreover have "val_writer (log_val_epoch (s\<lparr>sess := (sess s)\<lparr>inits := inits (sess s) + 1\<rparr>\<rparr>))
        = val_writer s @ [Epoch (global_epoch s) (epoch_summaries (metric_reset_ops lv0))]"
      using h by (simp add: log_val_epoch_def)
    moreover have "summary_f1 (epoch_summaries (metric_reset_ops lv0)) = NaN"
      by (simp add: epoch_summaries_def f1_reset)
    ultimately show ?thesis by blast
  qed
  show ?thesis using a b c d e f g f1_reset by blast
qed

theorem f1_read_time_witness:
  "metric_op ppv_metric \<lparr>true_positives = 1, false_positives = 1\<rparr>
     + metric_op sens_metric \<lparr>recall_true_positives = 1, false_negatives = 0\<rparr> \<noteq> 0
   \<and> f1 (local_init\<lparr>ppv_vars := \<lparr>true_positives = 1, false_positives = 1\<rparr>,
                      sens_vars := \<lparr>recall_true_positives = 1, false_negatives = 0\<rparr>\<rparr>)
       = Finite (2 / 3)
   \<and> metric_op ppv_metric (ppv_vars local_init) = 0
   \<and> metric_op sens_metric (sens_vars local_init) = 0
   \<and> f1 local_init = NaN
   \<and> 0 < batch_size default_args
   \<and> val_dataset (one_file_each\<lparr>list_files := \<lambda>pattern. []\<rparr>) default_args 0 = []
   \<and> (\<exists>s' e. val_pass (step_numerics 1) (one_file_each\<lparr>list_files := \<lambda>pattern. []\<rparr>)
                 default_args (initialize_variables (step_numerics 1) no_files) = Inr s'
          \<and> val_writer s' = [Epoch 0 e] \<and> summary_f1 e = NaN)"
proof -
  define lv1 where "lv1 = local_init\<lparr>ppv_vars := \<lparr>true_positives = 1, false_positives = 1\<rparr>,
                      sens_vars := \<lparr>recall_true_positives = 1, false_negatives = 0\<rparr>\<rparr>"
  define D0 where "D0 = one_file_each\<lparr>list_files := \<lambda>pattern. []\<rparr>"
  define s0 :: "(int, unit) train_state" where "s0 = initialize_variables (step_numerics 1) no_files"
  have p: "metric_op ppv_metric \<lparr>true_positives = 1, false_positives = 1\<rparr> = 1 / 2"
    and r: "metric_op sens_metric \<lparr>recall_true_positives = 1, false_negatives = 0\<rparr> = 1"
    by (simp_all add: metric_op_ppv metric_op_sens safe_div_def)
  have p0: "metric_op ppv_metric (ppv_vars local_init) = 0"
    and r0: "metric_op sens_metric (sens_vars local_init) = 0"
    by (simp_all add: metric_op_ppv metric_op_sens safe_div_def local_init_def
        metrics_precision_def metrics_recall_def)
  have bs: "0 < batch_size default_args" by (simp add: default_args_def)
  have vd: "val_dataset D0 default_args 0 = []"
    by (simp add: val_dataset_def D0_def one_file_each_def chunk_Nil)
  have li: "local_vars (sess s0) = metric_reset_ops local_init"
    by (simp add: s0_def initialize_variables_def metric_reset_ops_def local_init_def
        mean_loss_metric_def acc_metric_def ppv_metric_def sens_metric_def
        create_reset_metric_def metrics_accuracy_def)
  have i0: "inits (sess s0) = 0" "val_writer s0 = []" "global_epoch s0 = 0"
    by (simp_all add: s0_def initialize_variables_def)
  note t1 = f1_read_time [where lv = lv1]
  note t2 = f1_read_time [where lv = local_init and s = s0 and cfg = default_args
      and D = D0 and ?lv0.0 = local_init and N = "step_numerics 1"]
  have "metric_op ppv_metric (ppv_vars lv1) + metric_op sens_metric (sens_vars lv1) \<noteq> 0 \<longrightarrow>
      f1 lv1 = Finite (2 * metric_op ppv_metric (ppv_vars lv1) * metric_op sens_metric (sens_vars lv1)
                      / (metric_op ppv_metric (ppv_vars lv1) + metric_op sens_metric (sens_vars lv1)))"
    using t1 by blast
  then have a: "f1 lv1 = Finite (2 / 3)"
    by (simp add: lv1_def p r)
  have "0 \<le> metric_op ppv_metric (ppv_vars local_init)
        \<and> 0 \<le> metric_op sens_metric (sens_vars local_init)
        \<and> metric_op ppv_metric (ppv_vars local_init)
            + metric_op sens_metric (sens_vars local_init) = 0 \<longrightarrow>
        f1 local_init = NaN"
    using t2 by blast
  then have b: "f1 local_init = NaN" by (simp add: p0 r0)
  have "0 < batch_size default_args \<and> val_dataset D0 default_args (inits (sess s0)) = []
        \<and> local_vars (sess s0) = metric_reset_ops local_init \<longrightarrow>
        (\<exists>s' e. val_pass (step_numerics 1) D0 default_args s0 = Inr s'
           \<and> val_writer s' = val_writer s0 @ [Epoch (global_epoch s0) e] \<and> summary_f1 e = NaN)"
    using t2 by blast
  then have c: "\<exists>s' e. val_pass (step_numerics 1) D0 default_args s0 = Inr s'
          \<and> val_writer s' = [Epoch 0 e] \<and> summary_f1 e = NaN"
    using bs vd li by (simp add: i0)
  show ?thesis
    using p r p0 r0 a b bs vd c unfolding lv1_def D0_def s0_def by simp
qed

subsection \<open>The validation pass\<close>

lemma val_step_frame:
  "variables (sess (val_step N b s)) = variables (sess s)"
  "slots (sess (val_step N b s)) = slots (sess s)"
  "inits (sess (val_step N b s)) = inits (sess s)"
  "global_step (val_step N b s) = global_step s"
  "global_epoch (val_step N b s) = global_epoch s"
  "files (val_step N b s) = files s"
  "train_writer (val_step N b s) = train_writer s"
  "val_writer (val_step N b s) = val_writer s"
  by (simp_all add: val_step_def Let_def)

lemma val_loop_frame:
  assumes "val_loop N iterator s = Inr s'"
  shows "variables (sess s') = variables (sess s) \<and> slots (sess s') = slots (sess s)
    \<and> inits (sess s') = inits (sess s)
    \<and> global_step s' = global_step s \<and> global_epoch s' = global_epoch s
    \<and> files s' = files s \<and> train_writer s' = train_writer s \<and> val_writer s' = val_writer s"
  using assms
proof (induction iterator arbitrary: s)
  case Nil
  then show ?case by simp
next
  case (Cons x iterator)
  show ?case
  proof (cases x)
    case (Inl e)
    then show ?thesis using Cons.prems by simp
  next
    case (Inr b)
    then have "val_loop N iterator (val_step N b s) = Inr s'" using Cons.prems by simp
    from Cons.IH [OF this] show ?thesis by (simp add: val_step_frame)
  qed
qed

lemma val_pass_frame:
  assumes "val_pass N D cfg s = Inr s'"
  shows "variables (sess s') = variables (sess s) \<and> slots (sess s') = slots (sess s)
    \<and> global_step s' = global_step s \<and> global_epoch s' = global_epoch s
    \<and> files s' = files s \<and> train_writer s' = train_writer s"
proof -
  define s1 where "s1 = s\<lparr>sess := (sess s)\<lparr>inits := inits (sess s) + 1\<rparr>\<rparr>"
  from assms obtain s2 where l: "val_loop N (val_dataset D cfg (inits (sess s))) s1 = Inr s2"
    and s': "s' = log_val_epoch s2"
    by (auto simp: val_pass_def run_init_op_def s1_def split: if_splits sum.splits)
  from val_loop_frame [OF l] show ?thesis
    by (simp add: s' log_val_epoch_def s1_def)
qed

text \<open>
  The validation dataset does not depend on the augmentation flag or on the random
  draws, and the validation loop uses the network in test mode only.
\<close>

lemma preprocess_not_augmenting:
  assumes "read_image D' = read_image D"
  shows "preprocess D' coins' x p False m = preprocess D coins x p False m"
  unfolding preprocess_def get_image_def assms by (simp split: sum.splits)

lemma val_dataset_independent:
  assumes "list_files D' = list_files D" "read_image D' = read_image D"
  shows "val_dataset D' (cfg\<lparr>augmentation := a\<rparr>) n' = val_dataset D cfg n"
proof -
  have "(\<lambda>x. preprocess D' (flips D' n' x) x (patch_size cfg) False (model_name cfg))
      = (\<lambda>x. preprocess D (flips D n x) x (patch_size cfg) False (model_name cfg))"
    by (rule ext) (rule preprocess_not_augmenting [OF assms(2)])
  then show ?thesis
    by (simp add: val_dataset_def assms(1))
qed

lemma val_loop_test_mode:
  assumes "\<forall>vars b. loss_tensor N' vars False b = loss_tensor N vars False b"
    and "\<forall>vars b. preds_tensor N' vars False b = preds_tensor N vars False b"
  shows "val_loop N' iterator s = val_loop N iterator s"
proof (induction iterator arbitrary: s)
  case Nil
  show ?case by simp
next
  case (Cons x iterator)
  have "val_step N' b s = val_step N b s" for b
    using assms by (simp add: val_step_def)
  then show ?case using Cons.IH by (cases x) simp_all
qed

text \<open>
  Claim C7. A validation pass that ends normally leaves the model's weights, the
  optimizer's slots, \<open>global_step\<close>, \<open>global_epoch\<close>, the checkpoint files and the training
  writer as they were: what it changes are the metric variables (and the validation
  writer and the iterator). It gives the same result whatever the augmentation flag,
  the random draws of shuffling and flipping, and the behaviour of the network in
  training mode are: only the test-mode loss and predictions enter it.
\<close>

theorem val_pass_forward_only:
  assumes "val_pass N D cfg s = Inr s'"
    and "list_files D' = list_files D" "read_image D' = read_image D"
    and "\<forall>vars b. loss_tensor N' vars False b = loss_tensor N vars False b"
    and "\<forall>vars b. preds_tensor N' vars False b = preds_tensor N vars False b"
  shows "variables (sess s') = variables (sess s) \<and> slots (sess s') = slots (sess s)
    \<and> global_step s' = global_step s \<and> global_epoch s' = global_epoch s
    \<and> files s' = files s \<and> train_writer s' = train_writer s
    \<and> val_pass N' D' (cfg\<lparr>augmentation := a\<rparr>) s = Inr s'"
proof -
  have "val_pass N' D' (cfg\<lparr>augmentation := a\<rparr>) s = val_pass N D cfg s"
    using val_dataset_independent [OF assms(2,3), where cfg = cfg and a = a
        and n = "inits (sess s)" and n' = "inits (sess s)"]
      val_loop_test_mode [OF assms(4,5)]
    by (simp add: val_pass_def run_init_op_def)
  then show ?thesis using val_pass_frame [OF assms(1)] assms(1) by simp
qed

lemma val_dataset_one_file_each:
  "val_dataset one_file_each default_args n =
     [Inr [([[(23561 / 1000, 10721 / 1000, 191 / 50)]], 0,
            ''data/mitoses/patches/val/normal/1_03_05_713_348.jpg'')]]"
  by (simp add: val_dataset_def one_file_each_def default_args_def chunk_Cons chunk_Nil
      preprocess_def get_label_def string_split_def get_image_def normalize_def
      image_mul_def reverse_channels_def image_sub_channels_def map_image_def)

theorem val_pass_forward_only_witness:
  "\<exists>s'. val_pass (step_numerics 1) one_file_each default_args
           (initialize_variables (step_numerics 1) no_files) = Inr s'
     \<and> list_files (one_file_each\<lparr>shuffled := \<lambda>n. rev, flips := \<lambda>n x. (True, True)\<rparr>)
         = list_files one_file_each
     \<and> read_image (one_file_each\<lparr>shuffled := \<lambda>n. rev, flips := \<lambda>n x. (True, True)\<rparr>)
         = read_image one_file_each
     \<and> (\<forall>vars b. loss_tensor ((step_numerics 1)\<lparr>loss_tensor := \<lambda>vars lp b. if lp then 5 else 0\<rparr>)
                    vars False b = loss_tensor (step_numerics 1 :: (int, unit, batch) numerics) vars False b)
     \<and> (\<forall>vars b. preds_tensor ((step_numerics 1)\<lparr>loss_tensor := \<lambda>vars lp b. if lp then 5 else 0\<rparr>)
                    vars False b = preds_tensor (step_numerics 1 :: (int, unit, batch) numerics) vars False b)
     \<and> variables (sess s') = (\<lambda>v. 0)
     \<and> global_step s' = 0 \<and> global_epoch s' = 0
     \<and> files s' = no_files \<and> train_writer s' = []
     \<and> val_pass ((step_numerics 1)\<lparr>loss_tensor := \<lambda>vars lp b. if lp then 5 else 0\<rparr>)
          (one_file_each\<lparr>shuffled := \<lambda>n. rev, flips := \<lambda>n x. (True, True)\<rparr>)
          (default_args\<lparr>augmentation := False\<rparr>)
          (initialize_variables (step_numerics 1) no_files) = Inr s'"
proof -
  define N :: "(int, unit, batch) numerics" where "N = step_numerics 1"
  define N' where "N' = N\<lparr>loss_tensor := \<lambda>vars lp b. if lp then 5 else 0\<rparr>"
  define D' where "D' = one_file_each\<lparr>shuffled := \<lambda>n. rev, flips := \<lambda>n x. (True, True)\<rparr>"
  define s where "s = initialize_variables N no_files"
  have bs: "\<not> batch_size default_args \<le> 0" by (simp add: default_args_def)
  obtain s' where v: "val_pass N one_file_each default_args s = Inr s'"
    by (simp add: val_pass_def run_init_op_def bs val_dataset_one_file_each)
  have h1: "list_files D' = list_files one_file_each"
    and h2: "read_image D' = read_image one_file_each"
    by (simp_all add: D'_def)
  have h3: "\<forall>vars b. loss_tensor N' vars False b = loss_tensor N vars False b"
    and h4: "\<forall>vars b. preds_tensor N' vars False b = preds_tensor N vars False b"
    by (simp_all add: N'_def N_def step_numerics_def)
  have i: "variables (sess s) = (\<lambda>v. 0)" "global_step s = 0" "global_epoch s = 0"
    "files s = no_files" "train_writer s = []"
    by (simp_all add: s_def initialize_variables_def N_def step_numerics_def)
  from val_pass_forward_only [OF v h1 h2 h3 h4, of False]
  have "variables (sess s') = (\<lambda>v. 0) \<and> global_step s' = 0 \<and> global_epoch s' = 0
     \<and> files s' = no_files \<and> train_writer s' = []
     \<and> val_pass N' D' (default_args\<lparr>augmentation := False\<rparr>) s = Inr s'"
    by (simp add: i)
  then show ?thesis
    using v h1 h2 h3 h4 unfolding N'_def D'_def s_def N_def by blast
qed

subsection \<open>Counters and files over an epoch\<close>

lemma train_step_frame:
  "global_step (train_step N G cfg ph b s) = global_step s + 1"
  "global_epoch (train_step N G cfg ph b s) = global_epoch s"
  "files (train_step N G cfg ph b s) = files s"
  "val_writer (train_step N G cfg ph b s) = val_writer s"
  "inits (sess (train_step N G cfg ph b s)) = inits (sess s)"
  by (simp_all add: train_step_def Let_def)

lemma train_loop_frame:
  assumes "train_loop N G cfg ph iterator s = Inr s'"
  shows "global_step s' = global_step s + int (length iterator)
    \<and> global_epoch s' = global_epoch s \<and> files s' = files s
    \<and> val_writer s' = val_writer s \<and> inits (sess s') = inits (sess s)"
  using assms
proof (induction iterator arbitrary: s)
  case Nil
  then show ?case by simp
next
  case (Cons x iterator)
  show ?case
  proof (cases x)
    case (Inl e)
    then show ?thesis using Cons.prems by simp
  next
    case (Inr b)
    then have "train_loop N G cfg ph iterator (train_step N G cfg ph b s) = Inr s'"
      using Cons.prems by simp
    from Cons.IH [OF this] show ?thesis by (simp add: train_step_frame)
  qed
qed

lemma train_pass_frame:
  assumes "train_pass N D G cfg ph s = Inr s'"
  shows "global_epoch s' = global_epoch s \<and> files s' = files s
    \<and> val_writer s' = val_writer s \<and> global_step s \<le> global_step s'"
proof -
  define s1 where "s1 = s\<lparr>sess := (sess s)\<lparr>inits := inits (sess s) + 1\<rparr>\<rparr>"
  from assms obtain s2
    where l: "train_loop N G cfg ph (train_dataset D cfg (inits (sess s))) s1 = Inr s2"
      and s': "s' = log_train_epoch s2"
    by (auto simp: train_pass_def run_init_op_def s1_def split: if_splits sum.splits)
  from train_loop_frame [OF l] show ?thesis
    by (simp add: s' log_train_epoch_def s1_def)
qed

lemma val_pass_writer:
  assumes "val_pass N D cfg s = Inr s'"
  shows "\<exists>e. val_writer s' = val_writer s @ [Epoch (global_epoch s) e]"
proof -
  define s1 where "s1 = s\<lparr>sess := (sess s)\<lparr>inits := inits (sess s) + 1\<rparr>\<rparr>"
  from assms obtain s2 where l: "val_loop N (val_dataset D cfg (inits (sess s))) s1 = Inr s2"
    and s': "s' = log_val_epoch s2"
    by (auto simp: val_pass_def run_init_op_def s1_def split: if_splits sum.splits)
  from val_loop_frame [OF l] show ?thesis
    by (simp add: s' log_val_epoch_def s1_def)
qed

text \<open>
  An epoch that ends normally: \<open>global_epoch\<close> is one more, the validation writer has one
  more event under the old index, and with checkpointing the files hold the state and
  the counters as they are after the increment.
\<close>

lemma epoch_effect:
  assumes "epoch N D G cfg ph s = Inr s'"
  shows "global_epoch s' = global_epoch s + 1"
    and "\<exists>e. val_writer s' = val_writer s @ [Epoch (global_epoch s) e]"
    and "checkpoint cfg \<Longrightarrow>
           global_step_epoch_pickle (files s') = Some (global_step s', global_epoch s')
           \<and> model_ckpt (files s') = Some (variables (sess s'), slots (sess s'))
           \<and> model_ckpt_index (files s') = saver_vars G"
proof -
  from assms obtain s1 s2 where t: "train_pass N D G cfg ph s = Inr s1"
    and v: "val_pass N D cfg s1 = Inr s2"
    and s': "s' = (if checkpoint cfg then save_model G (s2\<lparr>global_epoch := global_epoch s2 + 1\<rparr>)
                   else s2\<lparr>global_epoch := global_epoch s2 + 1\<rparr>)"
    by (auto simp: epoch_def Let_def split: sum.splits)
  note tf = train_pass_frame [OF t] and vf = val_pass_frame [OF v] and vw = val_pass_writer [OF v]
  show "global_epoch s' = global_epoch s + 1"
    using tf vf by (simp add: s' save_model_def)
  show "\<exists>e. val_writer s' = val_writer s @ [Epoch (global_epoch s) e]"
    using tf vw by (auto simp: s' save_model_def)
  show "global_step_epoch_pickle (files s') = Some (global_step s', global_epoch s')
           \<and> model_ckpt (files s') = Some (variables (sess s'), slots (sess s'))
           \<and> model_ckpt_index (files s') = saver_vars G"
    if "checkpoint cfg"
    using that by (simp add: s' save_model_def)
qed

subsection \<open>The epoch loops\<close>

lemma upto_shift: "a # [a + 1..a + int n] = [a..a + int n]"
  using upto_rec1 [of a "a + int n"] by simp

lemma for_epochs_effect:
  assumes "for_epochs N D G cfg ph is s = Inr s'"
  shows "global_epoch s' = global_epoch s + int (length is)
    \<and> map summary_index (val_writer s') =
        map summary_index (val_writer s) @ [global_epoch s..global_epoch s + int (length is) - 1]
    \<and> (is = [] \<longrightarrow> s' = s)
    \<and> (is \<noteq> [] \<longrightarrow> checkpoint cfg \<longrightarrow>
          global_step_epoch_pickle (files s') = Some (global_step s', global_epoch s')
          \<and> model_ckpt (files s') = Some (variables (sess s'), slots (sess s'))
          \<and> model_ckpt_index (files s') = saver_vars G)"
  using assms
proof (induction "is" arbitrary: s)
  case Nil
  then show ?case by simp
next
  case (Cons i rest)
  from Cons.prems obtain s1 where e: "epoch N D G cfg ph s = Inr s1"
    and r: "for_epochs N D G cfg ph rest s1 = Inr s'"
    by (auto split: sum.splits)
  note ih = Cons.IH [OF r]
  have ge: "global_epoch s1 = global_epoch s + 1" by (rule epoch_effect(1) [OF e])
  obtain ev where vw: "val_writer s1 = val_writer s @ [Epoch (global_epoch s) ev]"
    using epoch_effect(2) [OF e] by blast
  have a: "global_epoch s' = global_epoch s + int (length (i # rest))"
    using ih ge by simp
  have b: "map summary_index (val_writer s') =
      map summary_index (val_writer s) @ [global_epoch s..global_epoch s + int (length (i # rest)) - 1]"
    using ih by (simp add: ge vw upto_shift)
  have c: "global_step_epoch_pickle (files s') = Some (global_step s', global_epoch s')
          \<and> model_ckpt (files s') = Some (variables (sess s'), slots (sess s'))
          \<and> model_ckpt_index (files s') = saver_vars G"
    if ck: "checkpoint cfg"
  proof (cases "rest = []")
    case True
    then have "s' = s1" using ih by simp
    then show ?thesis using epoch_effect(3) [OF e ck] by simp
  next
    case False
    then show ?thesis using ih ck by simp
  qed
  show ?case using a b c by simp
qed

lemma run_schedule_append:
  "run_schedule N D G cfg (xs @ ys) s =
     (case run_schedule N D G cfg xs s of
        Inl e \<Rightarrow> Inl e
      | Inr s1 \<Rightarrow> run_schedule N D G cfg ys s1)"
  by (induction xs arbitrary: s) (auto split: sum.splits)

lemma for_epochs_schedule:
  "for_epochs N D G cfg ph is s = run_schedule N D G cfg (replicate (length is) ph) s"
  by (induction "is" arbitrary: s) (auto split: sum.splits)

lemma length_py_range: "length (py_range a (a + n)) = nat n"
  by (simp add: py_range_def)

text \<open>
  The training loop runs the classifier phase for \<open>clf_epochs\<close> epochs and then the
  fine-tune phase for \<open>finetune_epochs\<close> epochs (none for a negative number), whatever
  the value of \<open>global_epoch\<close> it starts from.
\<close>

lemma training_loop_schedule:
  "training_loop N D G cfg s =
     run_schedule N D G cfg
       (replicate (nat (clf_epochs cfg)) Classifier
        @ replicate (nat (finetune_epochs cfg)) FineTune) s"
  by (simp add: training_loop_def run_schedule_append for_epochs_schedule length_py_range
      cong: sum.case_cong)

lemma upto_append:
  "[a..a + int m - 1] @ [a + int m..a + int m + int n - 1] = [a..a + int m + int n - 1]"
proof (cases n)
  case 0
  then show ?thesis by simp
next
  case (Suc n')
  have "[a..a + int m + int n - 1] = [a..a + int m - 1] @ [a + int m..a + int m + int n - 1]"
    by (rule upto_split1) (simp_all add: Suc)
  then show ?thesis by simp
qed

lemma training_loop_effect:
  assumes "training_loop N D G cfg s = Inr s'"
  shows "global_epoch s' =
           global_epoch s + int (nat (clf_epochs cfg)) + int (nat (finetune_epochs cfg))"
    and "map summary_index (val_writer s') =
           map summary_index (val_writer s)
           @ py_range (global_epoch s)
               (global_epoch s + int (nat (clf_epochs cfg)) + int (nat (finetune_epochs cfg)))"
    and "checkpoint cfg \<Longrightarrow> 0 < clf_epochs cfg \<or> 0 < finetune_epochs cfg \<Longrightarrow>
           global_step_epoch_pickle (files s') = Some (global_step s', global_epoch s')
           \<and> model_ckpt (files s') = Some (variables (sess s'), slots (sess s'))
           \<and> model_ckpt_index (files s') = saver_vars G"
proof -
  define n1 where "n1 = nat (clf_epochs cfg)"
  define n2 where "n2 = nat (finetune_epochs cfg)"
  from assms obtain s1
    where c: "for_epochs N D G cfg Classifier
                (py_range (global_epoch s) (global_epoch s + clf_epochs cfg)) s = Inr s1"
      and f: "for_epochs N D G cfg FineTune
                (py_range (global_epoch s1) (global_epoch s1 + finetune_epochs cfg)) s1 = Inr s'"
    by (auto simp: training_loop_def split: sum.splits)
  note ec = for_epochs_effect [OF c, unfolded length_py_range, folded n1_def]
  note ef = for_epochs_effect [OF f, unfolded length_py_range, folded n2_def]
  have g1: "global_epoch s1 = global_epoch s + int n1" using ec by simp
  show "global_epoch s' =
           global_epoch s + int (nat (clf_epochs cfg)) + int (nat (finetune_epochs cfg))"
    using ef g1 by (simp add: n1_def n2_def)
  have "map summary_index (val_writer s') =
      map summary_index (val_writer s)
      @ ([global_epoch s..global_epoch s + int n1 - 1]
         @ [global_epoch s + int n1..global_epoch s + int n1 + int n2 - 1])"
    using ec ef by (simp add: g1)
  then show "map summary_index (val_writer s') =
           map summary_index (val_writer s)
           @ py_range (global_epoch s)
               (global_epoch s + int (nat (clf_epochs cfg)) + int (nat (finetune_epochs cfg)))"
    by (simp only: upto_append py_range_def n1_def n2_def)
  show "global_step_epoch_pickle (files s') = Some (global_step s', global_epoch s')
           \<and> model_ckpt (files s') = Some (variables (sess s'), slots (sess s'))
           \<and> model_ckpt_index (files s') = saver_vars G"
    if ck: "checkpoint cfg" and pos: "0 < clf_epochs cfg \<or> 0 < finetune_epochs cfg"
  proof (cases "0 < finetune_epochs cfg")
    case True
    then have "py_range (global_epoch s1) (global_epoch s1 + finetune_epochs cfg) \<noteq> []"
      using length_py_range [of "global_epoch s1" "finetune_epochs cfg"] by auto
    then show ?thesis using ef ck by simp
  next
    case False
    then have "py_range (global_epoch s1) (global_epoch s1 + finetune_epochs cfg) = []"
      using length_py_range [of "global_epoch s1" "finetune_epochs cfg"] by auto
    then have same: "s' = s1" using ef by simp
    have "py_range (global_epoch s) (global_epoch s + clf_epochs cfg) \<noteq> []"
      using False pos length_py_range [of "global_epoch s" "clf_epochs cfg"] by auto
    then show ?thesis using ec ck same by simp
  qed
qed

subsection \<open>Fresh and resumed runs\<close>

lemma restore_error_self: "restore_error sig sig = None"
  by (simp add: restore_error_def)

lemma restore_error_None_iff:
  "restore_error wanted saved = None \<longleftrightarrow> set wanted \<subseteq> set saved"
proof -
  have e: "filter (\<lambda>x. x \<notin> set saved) wanted = [] \<longleftrightarrow> set wanted \<subseteq> set saved"
    by (auto simp: filter_empty_conv)
  show ?thesis
  proof (cases "filter (\<lambda>x. x \<notin> set saved) wanted")
    case Nil
    then show ?thesis using e by (simp add: restore_error_def)
  next
    case (Cons p ps)
    then have "\<not> set wanted \<subseteq> set saved" using e by simp
    then show ?thesis using Cons by (simp add: restore_error_def split: prod.splits)
  qed
qed

text \<open>
  The state a resumed run starts its loop from: the initial state with the variables
  and the counters of the files.
\<close>

lemma restore_Some:
  assumes "model_ckpt fs = Some (vars, sl)" "global_step_epoch_pickle fs = Some (step, k)"
    and "restore_error (saver_vars G) (model_ckpt_index fs) = None"
  shows "restore G (initialize_variables N fs) =
           Inr ((initialize_variables N fs)
                  \<lparr>sess := (sess (initialize_variables N fs))\<lparr>variables := vars, slots := sl\<rparr>,
                   global_step := step, global_epoch := k\<rparr>)"
  using assms by (simp add: restore_def initialize_variables_def)

lemma restore_rejected:
  assumes "model_ckpt fs = Some (vars, sl)"
    and "restore_error (saver_vars G) (model_ckpt_index fs) = Some e"
  shows "restore G (initialize_variables N fs) = Inl e"
  using assms by (simp add: restore_def initialize_variables_def)

lemma train_resumed:
  assumes "resume cfg" "build_graph L cfg = (made, Inr G)"
    and "model_ckpt fs = Some (vars, sl)" "global_step_epoch_pickle fs = Some (step, k)"
    and "restore_error (saver_vars G) (model_ckpt_index fs) = None"
  shows "train N D L cfg fs =
           (made @ [Session],
            training_loop N D G cfg
              ((initialize_variables N fs)
                  \<lparr>sess := (sess (initialize_variables N fs))\<lparr>variables := vars, slots := sl\<rparr>,
                   global_step := step, global_epoch := k\<rparr>))"
  using assms(1,2) restore_Some [OF assms(3,4,5), of N]
  by (simp add: train_def Let_def)

lemma train_resume_rejected:
  assumes "resume cfg" "build_graph L cfg = (made, Inr G)"
    and "model_ckpt fs = Some (vars, sl)"
    and "restore_error (saver_vars G) (model_ckpt_index fs) = Some e"
  shows "train N D L cfg fs = (made @ [Session], Inl e)"
  using assms(1,2) restore_rejected [OF assms(3,4), of N]
  by (simp add: train_def Let_def)

lemma train_resumed_Inr:
  assumes "resume cfg" "build_graph L cfg = (made, Inr G)"
    and "snd (train N D L cfg fs) = Inr s'"
  obtains s0 where "restore G (initialize_variables N fs) = Inr s0"
    and "training_loop N D G cfg s0 = Inr s'"
  using assms by (auto simp: train_def Let_def split: sum.splits)

lemma restore_counters:
  assumes "restore G s = Inr s0"
  shows "global_step_epoch_pickle (files s) = Some (global_step s0, global_epoch s0)"
    and "val_writer s0 = val_writer s"
  using assms by (auto simp: restore_def split: option.splits prod.splits)

lemma train_fresh:
  assumes "\<not> resume cfg" "build_graph L cfg = (made, Inr G)"
  shows "train N D L cfg fs =
           (made @ [Session], training_loop N D G cfg (initialize_variables N fs))"
  using assms by (simp add: train_def Let_def)

lemma train_Inr_graph:
  assumes "snd (train N D L cfg fs) = Inr s'"
  obtains made G where "build_graph L cfg = (made, Inr G)"
proof (cases "build_graph L cfg")
  case (Pair made r)
  then show ?thesis
    using assms that by (cases r) (simp_all add: train_def)
qed

lemma build_graph_cong:
  assumes "model_name cfg' = model_name cfg" "finetune_layers cfg' = finetune_layers cfg"
    "patch_size cfg' = patch_size cfg" "batch_size cfg' = batch_size cfg"
    "threads cfg' = threads cfg" "augmentation cfg' = augmentation cfg"
  shows "build_graph L cfg' = build_graph L cfg"
  unfolding build_graph_def data_section_def dataset_errors_def assms by (rule refl)

subsection \<open>Checkpoint and resume\<close>

text \<open>
  Claim C8. In every epoch that ends normally \<open>global_epoch\<close> is incremented before
  the files are written, so the pickled pair is the pair of counters after the epoch. A
  fresh run with checkpointing that ends normally after at least one epoch leaves the
  pair \<open>(global_step, global_epoch)\<close> in the files, with \<open>global_epoch\<close> the number of
  epochs completed; resuming from these files with no epoch to run ends with exactly
  this pair and with the saved variables; and any resumed run that ends normally numbers
  its epochs from the number of epochs completed.
\<close>

theorem checkpoint_round_trip:
  assumes "snd (train N D L cfg fs) = Inr s'"
    and "checkpoint cfg" "\<not> resume cfg"
    and "0 < clf_epochs cfg \<or> 0 < finetune_epochs cfg"
  shows "global_epoch s' = int (nat (clf_epochs cfg)) + int (nat (finetune_epochs cfg))
    \<and> global_step_epoch_pickle (files s') = Some (global_step s', global_epoch s')
    \<and> model_ckpt (files s') = Some (variables (sess s'), slots (sess s'))
    \<and> (\<exists>s''. snd (train N D L (cfg\<lparr>resume := True, clf_epochs := 0, finetune_epochs := 0\<rparr>)
                    (files s')) = Inr s''
          \<and> global_step s'' = global_step s' \<and> global_epoch s'' = global_epoch s'
          \<and> variables (sess s'') = variables (sess s') \<and> slots (sess s'') = slots (sess s'))
    \<and> (\<forall>cfg2 s2. resume cfg2 \<longrightarrow> snd (train N D L cfg2 (files s')) = Inr s2 \<longrightarrow>
          map summary_index (val_writer s2) =
            py_range (global_epoch s')
              (global_epoch s' + int (nat (clf_epochs cfg2)) + int (nat (finetune_epochs cfg2))))
    \<and> (\<forall>G ph s s1. epoch N D G cfg ph s = Inr s1 \<longrightarrow>
          global_epoch s1 = global_epoch s + 1
          \<and> global_step_epoch_pickle (files s1) = Some (global_step s1, global_epoch s + 1))"
proof -
  obtain made G where bg: "build_graph L cfg = (made, Inr G)"
    using assms(1) by (rule train_Inr_graph)
  have tl: "training_loop N D G cfg (initialize_variables N fs) = Inr s'"
    using assms(1) train_fresh [OF assms(3) bg, of N D fs] by simp
  have ge: "global_epoch s' = int (nat (clf_epochs cfg)) + int (nat (finetune_epochs cfg))"
    using training_loop_effect(1) [OF tl] by (simp add: initialize_variables_def)
  have pk: "global_step_epoch_pickle (files s') = Some (global_step s', global_epoch s')"
    and ck: "model_ckpt (files s') = Some (variables (sess s'), slots (sess s'))"
    and ix: "model_ckpt_index (files s') = saver_vars G"
    using training_loop_effect(3) [OF tl assms(2,4)] by simp_all
  have re: "restore_error (saver_vars G) (model_ckpt_index (files s')) = None"
    unfolding ix by (rule restore_error_self)
  define cfg0 where "cfg0 = cfg\<lparr>resume := True, clf_epochs := 0, finetune_epochs := 0\<rparr>"
  define s0 where "s0 = (initialize_variables N (files s'))
      \<lparr>sess := (sess (initialize_variables N (files s')))
                 \<lparr>variables := variables (sess s'), slots := slots (sess s')\<rparr>,
       global_step := global_step s', global_epoch := global_epoch s'\<rparr>"
  have bg0: "build_graph L cfg0 = (made, Inr G)"
    using bg build_graph_cong [of cfg0 cfg L] by (simp add: cfg0_def)
  have "train N D L cfg0 (files s') = (made @ [Session], training_loop N D G cfg0 s0)"
    unfolding s0_def by (rule train_resumed [OF _ bg0 ck pk re]) (simp add: cfg0_def)
  moreover have "training_loop N D G cfg0 s0 = Inr s0"
    by (simp add: training_loop_schedule cfg0_def)
  ultimately have r0: "snd (train N D L cfg0 (files s')) = Inr s0" by simp
  have rt: "\<exists>s''. snd (train N D L cfg0 (files s')) = Inr s''
          \<and> global_step s'' = global_step s' \<and> global_epoch s'' = global_epoch s'
          \<and> variables (sess s'') = variables (sess s') \<and> slots (sess s'') = slots (sess s')"
    using r0 by (simp add: s0_def)
  have nx: "map summary_index (val_writer s2) =
            py_range (global_epoch s')
              (global_epoch s' + int (nat (clf_epochs cfg2)) + int (nat (finetune_epochs cfg2)))"
    if res: "resume cfg2" and run: "snd (train N D L cfg2 (files s')) = Inr s2" for cfg2 s2
  proof -
    obtain made2 G2 where bg2: "build_graph L cfg2 = (made2, Inr G2)"
      using run by (rule train_Inr_graph)
    obtain s3 where r3: "restore G2 (initialize_variables N (files s')) = Inr s3"
      and l3: "training_loop N D G2 cfg2 s3 = Inr s2"
      using res bg2 run by (rule train_resumed_Inr)
    have "global_epoch s3 = global_epoch s'" "val_writer s3 = []"
      using restore_counters [OF r3] pk by (simp_all add: initialize_variables_def)
    with training_loop_effect(2) [OF l3] show ?thesis
      by simp
  qed
  have ep: "global_epoch s1 = global_epoch s + 1
          \<and> global_step_epoch_pickle (files s1) = Some (global_step s1, global_epoch s + 1)"
    if "epoch N D G cfg ph s = Inr s1" for G ph s s1
    using epoch_effect(1) [OF that] epoch_effect(3) [OF that assms(2)] by simp
  show ?thesis
    using ge pk ck rt nx ep unfolding cfg0_def by blast
qed

subsection \<open>What a resumed run executes\<close>

text \<open>
  Claim C1, as the code has it. A resumed run first restores the checkpoint into the
  graph it has just built, and \<^verbatim>\<open>saver.restore\<close> accepts the checkpoint only if it holds
  every variable of that graph with its shape.
  \<^item> If it does, and the pickled pair is \<open>(step, k)\<close>, the run starts its counters at the
    restored pair and then executes \<open>clf_epochs\<close> classifier epochs followed by
    \<open>finetune_epochs\<close> fine-tune epochs (none for a negative number), whatever \<open>k\<close> is:
    \<^verbatim>\<open>range(global_epoch, global_epoch+epochs)\<close> has \<open>epochs\<close> elements. When it ends
    normally, \<open>global_epoch\<close> is \<open>k\<close> plus the two numbers and its epochs carry the
    indices from \<open>k\<close> on.
  \<^item> If it does not, the run ends with the error of \<^verbatim>\<open>saver.restore\<close> right after the
    session is created, and no epoch is executed.
\<close>

theorem resumed_run_schedule:
  assumes "resume cfg" "build_graph L cfg = (made, Inr G)"
    and "model_ckpt fs = Some (vars, sl)" "global_step_epoch_pickle fs = Some (step, k)"
  shows "(restore_error (saver_vars G) (model_ckpt_index fs) = None \<longrightarrow>
           snd (train N D L cfg fs) =
             run_schedule N D G cfg
               (replicate (nat (clf_epochs cfg)) Classifier
                @ replicate (nat (finetune_epochs cfg)) FineTune)
               ((initialize_variables N fs)
                  \<lparr>sess := (sess (initialize_variables N fs))\<lparr>variables := vars, slots := sl\<rparr>,
                   global_step := step, global_epoch := k\<rparr>)
           \<and> (\<forall>s'. snd (train N D L cfg fs) = Inr s' \<longrightarrow>
                 global_epoch s' = k + int (nat (clf_epochs cfg)) + int (nat (finetune_epochs cfg))
                 \<and> map summary_index (val_writer s') =
                     py_range k (k + int (nat (clf_epochs cfg)) + int (nat (finetune_epochs cfg)))))
    \<and> (\<forall>e. restore_error (saver_vars G) (model_ckpt_index fs) = Some e \<longrightarrow>
          train N D L cfg fs = (made @ [Session], Inl e))"
proof -
  define s0 where "s0 = (initialize_variables N fs)
                \<lparr>sess := (sess (initialize_variables N fs))\<lparr>variables := vars, slots := sl\<rparr>,
                 global_step := step, global_epoch := k\<rparr>"
  have i: "global_epoch s0 = k" "val_writer s0 = []"
    by (simp_all add: s0_def initialize_variables_def)
  have ok: "snd (train N D L cfg fs) =
             run_schedule N D G cfg
               (replicate (nat (clf_epochs cfg)) Classifier
                @ replicate (nat (finetune_epochs cfg)) FineTune) s0
           \<and> (\<forall>s'. snd (train N D L cfg fs) = Inr s' \<longrightarrow>
                 global_epoch s' = k + int (nat (clf_epochs cfg)) + int (nat (finetune_epochs cfg))
                 \<and> map summary_index (val_writer s') =
                     py_range k (k + int (nat (clf_epochs cfg)) + int (nat (finetune_epochs cfg))))"
    if re: "restore_error (saver_vars G) (model_ckpt_index fs) = None"
  proof -
    have t: "snd (train N D L cfg fs) = training_loop N D G cfg s0"
      using train_resumed [OF assms re, of N D] by (simp add: s0_def)
    have "global_epoch s' = k + int (nat (clf_epochs cfg)) + int (nat (finetune_epochs cfg))
            \<and> map summary_index (val_writer s') =
                py_range k (k + int (nat (clf_epochs cfg)) + int (nat (finetune_epochs cfg)))"
      if "snd (train N D L cfg fs) = Inr s'" for s'
      using training_loop_effect(1,2) [of N D G cfg s0 s'] that t by (simp add: i)
    then show ?thesis
      using t by (simp add: training_loop_schedule)
  qed
  have bad: "train N D L cfg fs = (made @ [Session], Inl e)"
    if "restore_error (saver_vars G) (model_ckpt_index fs) = Some e" for e
    using assms(1,2,3) that by (rule train_resume_rejected)
  show ?thesis
    using ok bad unfolding s0_def by blast
qed

text \<open>
  The claim as stated is false for the default arguments (\<open>clf_epochs = 1\<close>,
  \<open>finetune_epochs = 0\<close>) on a data source with one training batch: the first run
  completes its one classifier epoch and pickles \<open>(1, 1)\<close>; the run resumed from its
  files with the same arguments restores the checkpoint and executes one more epoch
  (index 1, one more training step on the dense head), so two epochs are executed in
  total where \<open>clf_epochs + finetune_epochs\<close> is one.
\<close>

theorem resumed_run_counterexample:
  "clf_epochs default_args = 1 \<and> finetune_epochs default_args = 0
   \<and> (case snd (train (step_numerics 1) one_file_each small_libs default_args no_files) of
      Inl e \<Rightarrow> False
    | Inr s1 \<Rightarrow> global_epoch s1 = 1 \<and> global_step s1 = 1
        \<and> global_step_epoch_pickle (files s1) = Some (1, 1)
        \<and> variables (sess s1) ''dense_1/kernel'' = - 1
        \<and> (case snd (train (step_numerics 1) one_file_each small_libs
                        (default_args\<lparr>resume := True\<rparr>) (files s1)) of
              Inl e \<Rightarrow> False
            | Inr s2 \<Rightarrow> global_epoch s2 = 2 \<and> global_step s2 = 2
                \<and> map summary_index (val_writer s2) = [1]
                \<and> variables (sess s2) ''dense_1/kernel'' = - 2))"
  by code_simp
subsection \<open>Runs over well-formed data end normally\<close>

lemma train_loop_total:
  assumes "\<forall>x \<in> set iterator. \<exists>b. x = Inr b"
  shows "\<exists>s'. train_loop N G cfg ph iterator s = Inr s'"
  using assms
proof (induction iterator arbitrary: s)
  case Nil
  show ?case by simp
next
  case (Cons x iterator)
  then obtain b where "x = Inr b" by auto
  then show ?case using Cons by simp
qed

lemma val_loop_total:
  assumes "\<forall>x \<in> set iterator. \<exists>b. x = Inr b"
  shows "\<exists>s'. val_loop N iterator s = Inr s'"
  using assms
proof (induction iterator arbitrary: s)
  case Nil
  show ?case by simp
next
  case (Cons x iterator)
  then obtain b where "x = Inr b" by auto
  then show ?case using Cons by simp
qed

lemma epoch_total:
  assumes "0 < batch_size cfg"
    and "\<And>n. \<forall>x \<in> set (train_dataset D cfg n). \<exists>b. x = Inr b"
    and "\<And>n. \<forall>x \<in> set (val_dataset D cfg n). \<exists>b. x = Inr b"
  shows "\<exists>s'. epoch N D G cfg ph s = Inr s'"
proof -
  define s1 where "s1 = s\<lparr>sess := (sess s)\<lparr>inits := inits (sess s) + 1\<rparr>\<rparr>"
  obtain s2 where l: "train_loop N G cfg ph (train_dataset D cfg (inits (sess s))) s1 = Inr s2"
    using train_loop_total [OF assms(2)] by blast
  have t: "train_pass N D G cfg ph s = Inr (log_train_epoch s2)"
    using assms(1) l by (simp add: train_pass_def run_init_op_def s1_def)
  define s3 where "s3 = log_train_epoch s2"
  define s4 where "s4 = s3\<lparr>sess := (sess s3)\<lparr>inits := inits (sess s3) + 1\<rparr>\<rparr>"
  obtain s5 where v: "val_loop N (val_dataset D cfg (inits (sess s3))) s4 = Inr s5"
    using val_loop_total [OF assms(3)] by blast
  have "val_pass N D cfg s3 = Inr (log_val_epoch s5)"
    using assms(1) v by (simp add: val_pass_def run_init_op_def s4_def)
  then show ?thesis using t by (simp add: epoch_def s3_def Let_def)
qed

lemma run_schedule_total:
  assumes "0 < batch_size cfg"
    and "\<And>n. \<forall>x \<in> set (train_dataset D cfg n). \<exists>b. x = Inr b"
    and "\<And>n. \<forall>x \<in> set (val_dataset D cfg n). \<exists>b. x = Inr b"
  shows "\<exists>s'. run_schedule N D G cfg phs s = Inr s'"
proof (induction phs arbitrary: s)
  case Nil
  show ?case by simp
next
  case (Cons ph phs)
  obtain s1 where "epoch N D G cfg ph s = Inr s1"
    using epoch_total [OF assms] by blast
  then show ?case using Cons by simp
qed

lemma training_loop_total:
  assumes "0 < batch_size cfg"
    and "\<And>n. \<forall>x \<in> set (train_dataset D cfg n). \<exists>b. x = Inr b"
    and "\<And>n. \<forall>x \<in> set (val_dataset D cfg n). \<exists>b. x = Inr b"
  shows "\<exists>s'. training_loop N D G cfg s = Inr s'"
  unfolding training_loop_schedule by (rule run_schedule_total [OF assms])

text \<open>The example data source delivers one well-formed batch per pass.\<close>

lemma one_file_each_datasets:
  assumes "train_path cfg = train_path default_args" "val_path cfg = val_path default_args"
    and "0 < batch_size cfg"
  shows "\<forall>x \<in> set (train_dataset one_file_each cfg n). \<exists>b. x = Inr b"
    and "\<forall>x \<in> set (val_dataset one_file_each cfg n). \<exists>b. x = Inr b"
  using assms
  by (simp_all add: train_dataset_def val_dataset_def one_file_each_def default_args_def
      chunk_Cons chunk_Nil preprocess_def get_label_def string_split_def get_image_def Let_def)
subsection \<open>Instances of the round trip and of the resumed run\<close>

theorem checkpoint_round_trip_witness:
  "\<exists>s'. snd (train (step_numerics 1) one_file_each small_libs default_args no_files) = Inr s'
     \<and> checkpoint default_args \<and> \<not> resume default_args \<and> 0 < clf_epochs default_args
     \<and> global_epoch s' = 1
     \<and> global_step_epoch_pickle (files s') = Some (global_step s', 1)
     \<and> (\<exists>s''. snd (train (step_numerics 1) one_file_each small_libs
                     (default_args\<lparr>resume := True, clf_epochs := 0, finetune_epochs := 0\<rparr>)
                     (files s')) = Inr s''
           \<and> global_step s'' = global_step s' \<and> global_epoch s'' = 1
           \<and> variables (sess s'') = variables (sess s'))"
proof -
  define N :: "(int, unit, batch) numerics" where "N = step_numerics 1"
  define G where "G = build_optim (model_on_base small_vgg) (finetune_layers default_args)
                        (variable_shape small_libs ''vgg'' 64)"
  have h: "checkpoint default_args" "\<not> resume default_args" "0 < clf_epochs default_args"
    "finetune_epochs default_args = 0" "clf_epochs default_args = 1"
    "0 < batch_size default_args" "model_name default_args = ''vgg''"
    "patch_size default_args = 64" "threads default_args = 5" "batch_size default_args = 32"
    by (simp_all add: default_args_def)
  note bg = build_graph_small_vgg [OF h(7,8,9,10), folded G_def]
  obtain s' where tl: "training_loop N one_file_each G
      default_args (initialize_variables N no_files) = Inr s'"
    using training_loop_total [OF h(6) one_file_each_datasets [OF refl refl h(6)]] by blast
  have run: "snd (train N one_file_each small_libs default_args no_files) = Inr s'"
    using train_fresh [OF h(2) bg, of N one_file_each no_files] tl by simp
  have pos: "0 < clf_epochs default_args \<or> 0 < finetune_epochs default_args"
    using h(3) by simp
  note t = checkpoint_round_trip [OF run h(1,2) pos]
  have a: "global_epoch s' = 1" using t by (simp add: h)
  have b: "global_step_epoch_pickle (files s') = Some (global_step s', 1)"
    using t a by simp
  have c: "\<exists>s''. snd (train N one_file_each small_libs
                     (default_args\<lparr>resume := True, clf_epochs := 0, finetune_epochs := 0\<rparr>)
                     (files s')) = Inr s''
           \<and> global_step s'' = global_step s' \<and> global_epoch s'' = 1
           \<and> variables (sess s'') = variables (sess s')"
    using t a by auto
  show ?thesis
    using run h(1,2,3) a b c unfolding N_def by blast
qed

text \<open>
  Two resumed runs from the checkpoint of a run with the default arguments, pickled pair
  \<open>(7, 5)\<close>. With the default graph and one epoch of each phase the checkpoint is
  accepted and the epochs 5 and 6 are executed. With \<^verbatim>\<open>--finetune_layers 2\<close> the graph
  has momentum slots for the last convolution, which the checkpoint lacks:
  \<^verbatim>\<open>saver.restore\<close> raises and the run ends there.
\<close>

theorem resumed_run_schedule_witness:
  "\<exists>G s'. resume (default_args\<lparr>resume := True, finetune_epochs := 1\<rparr>)
     \<and> build_graph small_libs (default_args\<lparr>resume := True, finetune_epochs := 1\<rparr>)
         = (fst (build_graph small_libs (default_args\<lparr>resume := True, finetune_epochs := 1\<rparr>)),
            Inr G)
     \<and> restore_error (saver_vars G) (saver_vars G) = None
     \<and> snd (train (step_numerics 1) one_file_each small_libs
              (default_args\<lparr>resume := True, finetune_epochs := 1\<rparr>)
              \<lparr>model_ckpt = Some (\<lambda>v. 0, ()), model_ckpt_index = saver_vars G,
               global_step_epoch_pickle = Some (7, 5), keras_models = []\<rparr>) = Inr s'
     \<and> Inr s' = run_schedule (step_numerics 1) one_file_each G
              (default_args\<lparr>resume := True, finetune_epochs := 1\<rparr>) [Classifier, FineTune]
              ((initialize_variables (step_numerics 1)
                  \<lparr>model_ckpt = Some (\<lambda>v. 0, ()), model_ckpt_index = saver_vars G,
                   global_step_epoch_pickle = Some (7, 5), keras_models = []\<rparr>)
                \<lparr>global_step := 7, global_epoch := 5\<rparr>)
     \<and> global_epoch s' = 7
     \<and> map summary_index (val_writer s') = [5, 6]
     \<and> snd (train (step_numerics 1) one_file_each small_libs
              (default_args\<lparr>resume := True, finetune_epochs := 1, finetune_layers := 2\<rparr>)
              \<lparr>model_ckpt = Some (\<lambda>v. 0, ()), model_ckpt_index = saver_vars G,
               global_step_epoch_pickle = Some (7, 5), keras_models = []\<rparr>)
         = Inl (NotFoundError ''block5_conv3/kernel/Momentum'')"
proof -
  define N :: "(int, unit, batch) numerics" where "N = step_numerics 1"
  define cfg where "cfg = default_args\<lparr>resume := True, finetune_epochs := 1\<rparr>"
  define cfg2 where "cfg2 = default_args\<lparr>resume := True, finetune_epochs := 1, finetune_layers := 2\<rparr>"
  define G where "G = build_optim (model_on_base small_vgg) 0 (variable_shape small_libs ''vgg'' 64)"
  define G2 where "G2 = build_optim (model_on_base small_vgg) 2 (variable_shape small_libs ''vgg'' 64)"
  define fs :: "(int, unit) experiment_files"
    where "fs = \<lparr>model_ckpt = Some (\<lambda>v. 0, ()), model_ckpt_index = saver_vars G,
                 global_step_epoch_pickle = Some (7, 5), keras_models = []\<rparr>"
  have h: "resume cfg" "clf_epochs cfg = 1" "finetune_epochs cfg = 1" "0 < batch_size cfg"
    "model_name cfg = ''vgg''" "train_path cfg = train_path default_args"
    "val_path cfg = val_path default_args" "patch_size cfg = 64" "threads cfg = 5"
    "batch_size cfg = 32" "finetune_layers cfg = 0"
    by (simp_all add: cfg_def default_args_def)
  have h2: "resume cfg2" "model_name cfg2 = ''vgg''" "patch_size cfg2 = 64" "threads cfg2 = 5"
    "batch_size cfg2 = 32" "finetune_layers cfg2 = 2"
    by (simp_all add: cfg2_def default_args_def)
  have bg: "build_graph small_libs cfg = (fst (build_graph small_libs cfg), Inr G)"
    by (simp add: build_graph_small_vgg [OF h(5,8,9,10)] h(11) G_def)
  have bg2: "build_graph small_libs cfg2 = (fst (build_graph small_libs cfg2), Inr G2)"
    by (simp add: build_graph_small_vgg [OF h2(2,3,4,5)] h2(6) G2_def)
  have f: "model_ckpt fs = Some (\<lambda>v. 0, ())" "global_step_epoch_pickle fs = Some (7, 5)"
    "model_ckpt_index fs = saver_vars G"
    by (simp_all add: fs_def)
  have re: "restore_error (saver_vars G) (model_ckpt_index fs) = None"
    unfolding f(3) by (rule restore_error_self)
  have re2: "restore_error (saver_vars G2) (model_ckpt_index fs)
               = Some (NotFoundError ''block5_conv3/kernel/Momentum'')"
    unfolding f(3)
    by (simp add: restore_error_def saver_variables_def G_def G2_def optim_eval_defs
        small_layer_defs)
  define s0 where "s0 = (initialize_variables N fs)
        \<lparr>sess := (sess (initialize_variables N fs))\<lparr>variables := \<lambda>v. 0, slots := ()\<rparr>,
         global_step := 7, global_epoch := 5\<rparr>"
  have s0: "s0 = (initialize_variables N fs)\<lparr>global_step := 7, global_epoch := 5\<rparr>"
    by (simp add: s0_def initialize_variables_def N_def step_numerics_def)
  note t = resumed_run_schedule [OF h(1) bg f(1,2), of N one_file_each, folded s0_def]
  note t2 = resumed_run_schedule [OF h2(1) bg2 f(1,2), of N one_file_each]
  obtain s' where ok: "run_schedule N one_file_each G cfg [Classifier, FineTune] s0 = Inr s'"
    using run_schedule_total [OF h(4) one_file_each_datasets [OF h(6,7,4)]] by blast
  have run: "snd (train N one_file_each small_libs cfg fs) = Inr s'"
    using t re ok by (simp add: h numeral_2_eq_2)
  have e: "global_epoch s' = 7" "map summary_index (val_writer s') = [5, 6]"
    using t re run by (simp_all add: h py_range_def)
  have bad: "snd (train N one_file_each small_libs cfg2 fs)
               = Inl (NotFoundError ''block5_conv3/kernel/Momentum'')"
    using t2 re2 by simp
  have "resume cfg \<and> build_graph small_libs cfg = (fst (build_graph small_libs cfg), Inr G)
     \<and> restore_error (saver_vars G) (saver_vars G) = None
     \<and> snd (train N one_file_each small_libs cfg fs) = Inr s'
     \<and> Inr s' = run_schedule N one_file_each G cfg [Classifier, FineTune]
                  ((initialize_variables N fs)\<lparr>global_step := 7, global_epoch := 5\<rparr>)
     \<and> global_epoch s' = 7
     \<and> map summary_index (val_writer s') = [5, 6]
     \<and> snd (train N one_file_each small_libs cfg2 fs)
         = Inl (NotFoundError ''block5_conv3/kernel/Momentum'')"
    using h(1) bg re run ok e bad unfolding s0 f(3) by simp
  then show ?thesis
    unfolding cfg_def cfg2_def fs_def N_def
    by - (rule exI [of _ G], rule exI [of _ s'], assumption)
qed
end
